theory Spec2Isabelle
  imports Main
begin

section \<open>Python values\<close>

text \<open>
  A Python \<open>str\<close> is modelled by the list of its UTF-8 bytes, a \<open>string\<close>; the fixed
  non-ASCII texts of the source are written as these bytes. \<open>strip\<close> takes off the
  characters for which \<open>str.isspace\<close> holds, ASCII or not, each recognised by its
  encoding: in well-formed UTF-8 a lead byte is never a continuation byte, so the
  encoding of a character at either end of the text is found there and nowhere else.
  A character begins with the one byte of its encoding that is no continuation byte,
  which is how \<open>len\<close> and a slice count characters. Searching, splitting and
  replacing work on the bytes, since the encoding of a text occurs in another only
  where the text does. \<open>lower\<close> changes the ASCII letters. Python lower-cases
  letters outside ASCII too; none of them becomes an ASCII letter, except U+212A which
  becomes \<open>k\<close>, so whether a lower-cased text is one of the status names below (they
  have no \<open>k\<close>) is decided as Python decides it, while the lower-cased text itself is
  Python's on ASCII text only.
\<close>

abbreviation LF :: char where
  "LF \<equiv> CHR 0x0A"

definition spaces :: "string list" where
  \<comment> \<open>the characters for which \<open>str.isspace\<close> holds, as UTF-8: U+0009 to U+000D,
      U+001C to U+0020, U+0085, U+00A0, U+1680, U+2000 to U+200A, U+2028, U+2029, U+202F,
      U+205F, U+3000\<close>
  "spaces =
     map (\<lambda>c. [c]) [CHR 0x09, CHR 0x0A, CHR 0x0B, CHR 0x0C, CHR 0x0D,
                    CHR 0x1C, CHR 0x1D, CHR 0x1E, CHR 0x1F, CHR 0x20]
     @ [[CHR 0xC2, CHR 0x85], [CHR 0xC2, CHR 0xA0], [CHR 0xE1, CHR 0x9A, CHR 0x80]]
     @ map (\<lambda>c. [CHR 0xE2, CHR 0x80, c])
         [CHR 0x80, CHR 0x81, CHR 0x82, CHR 0x83, CHR 0x84, CHR 0x85, CHR 0x86, CHR 0x87,
          CHR 0x88, CHR 0x89, CHR 0x8A, CHR 0xA8, CHR 0xA9, CHR 0xAF]
     @ [[CHR 0xE2, CHR 0x81, CHR 0x9F], [CHR 0xE3, CHR 0x80, CHR 0x80]]"

function lstrip_of :: "string list \<Rightarrow> string \<Rightarrow> string" where
  \<comment> \<open>the text without the longest prefix made of the given byte sequences\<close>
  "lstrip_of seqs s =
     (case find (\<lambda>t. t \<noteq> [] \<and> take (length t) s = t) seqs of
        None \<Rightarrow> s
      | Some t \<Rightarrow> lstrip_of seqs (drop (length t) s))"
  by pat_completeness auto

termination
proof (relation "measure (\<lambda>(seqs, s). length s)")
  show "wf (measure (\<lambda>(seqs, s). length s))" by simp
next
  fix seqs :: "string list" and s t :: string
  assume "find (\<lambda>t. t \<noteq> [] \<and> take (length t) s = t) seqs = Some t"
  then have "t \<noteq> []" and "take (length t) s = t" by (auto simp: find_Some_iff)
  then have "0 < length t" and "s \<noteq> []" by auto
  then show "((seqs, drop (length t) s), (seqs, s)) \<in> measure (\<lambda>(seqs, s). length s)" by simp
qed

declare lstrip_of.simps [simp del]

definition strip :: "string \<Rightarrow> string" where
  \<comment> \<open>\<open>s.strip()\<close>\<close>
  "strip s = rev (lstrip_of (map rev spaces) (rev (lstrip_of spaces s)))"

definition lower_char :: "char \<Rightarrow> char" where
  "lower_char c =
     (let n = (of_char c :: nat) in if 65 \<le> n \<and> n \<le> 90 then char_of (n + 32) else c)"

definition lower :: "string \<Rightarrow> string" where
  \<comment> \<open>\<open>s.lower()\<close>\<close>
  "lower s = map lower_char s"

fun join :: "string \<Rightarrow> string list \<Rightarrow> string" where
  \<comment> \<open>\<open>sep.join(xs)\<close> on a list of strings\<close>
  "join sep [] = []"
| "join sep [x] = x"
| "join sep (x # y # ys) = x @ sep @ join sep (y # ys)"

fun split_on :: "char \<Rightarrow> string \<Rightarrow> string list" where
  \<comment> \<open>\<open>s.split(c)\<close> for a one-character separator: never the empty list\<close>
  "split_on c [] = [[]]"
| "split_on c (x # xs) =
     (if x = c then [] # split_on c xs
      else (case split_on c xs of [] \<Rightarrow> [[x]] | l # ls \<Rightarrow> (x # l) # ls))"

definition is_continuation :: "char \<Rightarrow> bool" where
  \<comment> \<open>a byte \<open>10xxxxxx\<close>, which continues the encoding of a character\<close>
  "is_continuation c = (128 \<le> (of_char c :: nat) \<and> (of_char c :: nat) < 192)"

definition py_len :: "string \<Rightarrow> nat" where
  \<comment> \<open>\<open>len(s)\<close>: the number of characters, that is of bytes that begin one\<close>
  "py_len s = length (filter (\<lambda>c. \<not> is_continuation c) s)"

fun take_chars :: "nat \<Rightarrow> string \<Rightarrow> string" where
  \<comment> \<open>\<open>s[:n]\<close>, the first \<open>n\<close> characters\<close>
  "take_chars n [] = []"
| "take_chars n (c # cs) =
     (if is_continuation c then c # take_chars n cs
      else (case n of 0 \<Rightarrow> [] | Suc m \<Rightarrow> c # take_chars m cs))"

definition digit_char :: "nat \<Rightarrow> char" where
  "digit_char d = char_of (48 + d)"

fun show_nat :: "nat \<Rightarrow> string" where
  \<comment> \<open>\<open>str(n)\<close> for a non-negative integer\<close>
  "show_nat n = (if n < 10 then [digit_char n] else show_nat (n div 10) @ [digit_char (n mod 10)])"

declare show_nat.simps [simp del]

definition show_int :: "int \<Rightarrow> string" where
  \<comment> \<open>\<open>str(n)\<close> for an integer\<close>
  "show_int n = (if n < 0 then CHR ''-'' # show_nat (nat (- n)) else show_nat (nat n))"

definition dict_get :: "('k \<times> 'v) list \<Rightarrow> 'k \<Rightarrow> 'v \<Rightarrow> 'v" where
  \<comment> \<open>\<open>d.get(k, default)\<close>\<close>
  "dict_get d k dflt = (case map_of d k of None \<Rightarrow> dflt | Some v \<Rightarrow> v)"

text \<open>
  The values \<open>json.loads\<close> returns, which are also the values a tool receives as its
  input. A dictionary is an association list read with \<open>map_of\<close>; numbers are
  integers.
\<close>

datatype json =
    JNull
  | JBool bool
  | JNum int
  | JStr string
  | JArr "json list"
  | JObj "(string \<times> json) list"

definition str_of :: "(json \<Rightarrow> string) \<Rightarrow> json \<Rightarrow> string" where
  \<comment> \<open>\<open>str(v)\<close>, which is also \<open>f"{v}"\<close>: a string is itself; of a list or a dictionary
      it is \<open>repr(v)\<close>, a parameter\<close>
  "str_of repr v =
     (case v of
        JStr s \<Rightarrow> s
      | JNull \<Rightarrow> ''None''
      | JBool b \<Rightarrow> (if b then ''True'' else ''False'')
      | JNum n \<Rightarrow> show_int n
      | _ \<Rightarrow> repr v)"

datatype exn =
    ValueError string
  | TypeError
  | KeyError
  | AttributeError
  | UnboundLocalError
  | OtherError string

section \<open>Todo store (utils.py, class TodoManager)\<close>

text \<open>
  \<open>TodoManager.update\<close> receives the list \<open>items\<close> of the tool input: any parsed
  values. It reads an item with \<open>item.get\<close>, which only a dictionary has, and turns
  what it reads into text with \<open>str\<close>. A stored item has the three validated fields.
\<close>

record todo_item =
  item_content :: string
  item_status :: string
  item_activeForm :: string

record todo_manager =
  items :: "todo_item list"

definition statuses :: "string list" where
  "statuses = [''pending'', ''in_progress'', ''completed'']"

text \<open>
  The validation loop of \<open>update\<close>: \<open>i\<close> is the index of the next item,
  \<open>validated\<close> and \<open>in_progress_count\<close> are the loop's accumulators. The first
  failing check raises; on an item that is not a dictionary the first \<open>item.get\<close>
  raises an \<open>AttributeError\<close>.
\<close>

fun validate_items ::
  "(json \<Rightarrow> string) \<Rightarrow> nat \<Rightarrow> json list \<Rightarrow> todo_item list \<Rightarrow> nat
     \<Rightarrow> exn + (todo_item list \<times> nat)" where
  "validate_items repr i [] validated in_progress_count = Inr (validated, in_progress_count)"
| "validate_items repr i (item # rest) validated in_progress_count =
     (case item of
        JObj d \<Rightarrow>
          (let content = strip (str_of repr (dict_get d ''content'' (JStr '''')));
               status = lower (str_of repr (dict_get d ''status'' (JStr ''pending'')));
               active_form = strip (str_of repr (dict_get d ''activeForm'' (JStr '''')))
           in if content = [] then
                Inl (ValueError (''Item '' @ show_nat i @ '': content required''))
              else if status \<notin> set statuses then
                Inl (ValueError (''Item '' @ show_nat i @ '': invalid status '' @ [CHR 0x27]
                                   @ status @ [CHR 0x27]))
              else if active_form = [] then
                Inl (ValueError (''Item '' @ show_nat i @ '': activeForm required''))
              else
                validate_items repr (Suc i) rest
                  (validated @ [\<lparr>item_content = content, item_status = status,
                                  item_activeForm = active_form\<rparr>])
                  (if status = ''in_progress'' then in_progress_count + 1 else in_progress_count))
      | _ \<Rightarrow> Inl AttributeError)"

definition render_line :: "todo_item \<Rightarrow> string" where
  "render_line item =
     (if item_status item = ''completed'' then ''[x] '' @ item_content item
      else if item_status item = ''in_progress'' then
        ''[>] '' @ item_content item @ '' <- '' @ item_activeForm item
      else ''[ ] '' @ item_content item)"

definition summary_line :: "todo_item list \<Rightarrow> string" where
  "summary_line its =
     ''('' @ show_nat (length (filter (\<lambda>t. item_status t = ''completed'') its)) @ ''/''
       @ show_nat (length its) @ '' completed)''"

definition render :: "todo_manager \<Rightarrow> string" where
  "render tm =
     (if items tm = [] then ''No todos.''
      else join [LF] (map render_line (items tm) @ [[LF] @ summary_line (items tm)]))"

text \<open>
  \<open>update\<close> returns the raised exception or the rendered text, and the manager after
  the call: \<open>self.items\<close> is assigned only after every check has passed.
\<close>

definition update ::
  "(json \<Rightarrow> string) \<Rightarrow> todo_manager \<Rightarrow> json list \<Rightarrow> (exn + string) \<times> todo_manager" where
  "update repr tm raw =
     (case validate_items repr 0 raw [] 0 of
        Inl e \<Rightarrow> (Inl e, tm)
      | Inr (validated, in_progress_count) \<Rightarrow>
          if length validated > 20 then (Inl (ValueError ''Max 20 todos allowed''), tm)
          else if in_progress_count > 1 then
            (Inl (ValueError ''Only one task can be in_progress at a time''), tm)
          else (let tm' = tm\<lparr>items := validated\<rparr> in (Inr (render tm'), tm')))"

subsection \<open>What \<open>update\<close> accepts\<close>

definition normalised :: "(json \<Rightarrow> string) \<Rightarrow> json \<Rightarrow> todo_item" where
  \<comment> \<open>the dictionary \<open>update\<close> appends to \<open>validated\<close> for an accepted item; an item
      that is not a dictionary is never accepted\<close>
  "normalised repr item =
     (case item of
        JObj d \<Rightarrow>
          \<lparr>item_content = strip (str_of repr (dict_get d ''content'' (JStr ''''))),
           item_status = lower (str_of repr (dict_get d ''status'' (JStr ''pending''))),
           item_activeForm = strip (str_of repr (dict_get d ''activeForm'' (JStr '''')))\<rparr>
      | _ \<Rightarrow> \<lparr>item_content = [], item_status = [], item_activeForm = []\<rparr>)"

definition item_rejected :: "(json \<Rightarrow> string) \<Rightarrow> json \<Rightarrow> bool" where
  \<comment> \<open>the item is not a dictionary, or one of the three per-item checks of the loop
      raises\<close>
  "item_rejected repr item =
     (case item of
        JObj d \<Rightarrow>
          strip (str_of repr (dict_get d ''content'' (JStr ''''))) = [] \<or>
          lower (str_of repr (dict_get d ''status'' (JStr ''pending''))) \<notin> set statuses \<or>
          strip (str_of repr (dict_get d ''activeForm'' (JStr ''''))) = []
      | _ \<Rightarrow> True)"

definition in_progress_items :: "(json \<Rightarrow> string) \<Rightarrow> json list \<Rightarrow> nat" where
  "in_progress_items repr raw =
     length (filter (\<lambda>item. item_status (normalised repr item) = ''in_progress'') raw)"

definition claimed_invalid :: "json list \<Rightarrow> bool" where
  \<comment> \<open>the failure condition in the specification's words: the fields of an item
      compared as they are given, a missing field read as the empty text\<close>
  "claimed_invalid raw =
     ((\<exists>item\<in>set raw.
          (case item of
             JObj d \<Rightarrow>
               dict_get d ''content'' (JStr '''') = JStr '''' \<or>
               dict_get d ''activeForm'' (JStr '''') = JStr '''' \<or>
               dict_get d ''status'' (JStr '''') \<notin> JStr ` set statuses
           | _ \<Rightarrow> True)) \<or>
      1 < length (filter (\<lambda>item.
            (case item of JObj d \<Rightarrow> dict_get d ''status'' (JStr '''') = JStr ''in_progress''
             | _ \<Rightarrow> False)) raw) \<or>
      20 < length raw)"

definition glyph_lines :: "string \<Rightarrow> string list" where
  \<comment> \<open>the lines of a rendering that start with one of the three status glyphs\<close>
  "glyph_lines out =
     filter (\<lambda>l. take 4 l \<in> {''[x] '', ''[>] '', ''[ ] ''}) (split_on LF out)"

text \<open>
  The items of the examples. \<open>example_repr\<close> stands for \<open>repr\<close>; no example has a
  field that is a list or a dictionary.
\<close>

definition example_repr :: "json \<Rightarrow> string" where
  "example_repr v = ''[...]''"

definition todo :: "string \<Rightarrow> string \<Rightarrow> string \<Rightarrow> json" where
  \<comment> \<open>\<open>{"content": c, "status": s, "activeForm": a}\<close>\<close>
  "todo c s a = JObj [(''content'', JStr c), (''status'', JStr s), (''activeForm'', JStr a)]"

definition old_list :: todo_manager where
  "old_list = \<lparr>items = [\<lparr>item_content = ''old'', item_status = ''pending'',
                          item_activeForm = ''Doing''\<rparr>]\<rparr>"

definition nbsp :: string where
  \<comment> \<open>U+00A0, the no-break space\<close>
  "nbsp = [CHR 0xC2, CHR 0xA0]"

definition wide_space :: string where
  \<comment> \<open>U+3000, the ideographic space\<close>
  "wide_space = [CHR 0xE3, CHR 0x80, CHR 0x80]"

lemma validate_items_ok:
  "\<forall>item\<in>set raw. \<not> item_rejected repr item \<Longrightarrow>
   validate_items repr i raw v c
     = Inr (v @ map (normalised repr) raw, c + in_progress_items repr raw)"
  by (induction raw arbitrary: i v c)
     (auto simp: item_rejected_def normalised_def in_progress_items_def Let_def
           split: json.splits)

lemma validate_items_bad:
  "\<exists>item\<in>set raw. item_rejected repr item \<Longrightarrow> isl (validate_items repr i raw v c)"
  by (induction raw arbitrary: i v c)
     (auto simp: item_rejected_def Let_def split: json.splits)

lemma update_fails_iff_aux:
  "isl (fst (update repr tm raw)) \<longleftrightarrow>
     (\<exists>item\<in>set raw. item_rejected repr item) \<or> 1 < in_progress_items repr raw
       \<or> 20 < length raw"
proof (cases "\<exists>item\<in>set raw. item_rejected repr item")
  case True
  then have "isl (validate_items repr 0 raw [] 0)" by (rule validate_items_bad)
  then show ?thesis using True by (auto simp: update_def split: sum.splits)
next
  case False
  then have "validate_items repr 0 raw [] 0
      = Inr ([] @ map (normalised repr) raw, 0 + in_progress_items repr raw)"
    by (intro validate_items_ok) simp
  then show ?thesis using False by (auto simp: update_def Let_def)
qed

lemma update_atomic: "isl (fst (update repr tm raw)) \<Longrightarrow> snd (update repr tm raw) = tm"
  by (auto simp: update_def Let_def split: sum.splits if_splits prod.splits)

lemma update_accepts:
  assumes "\<forall>item\<in>set raw. \<not> item_rejected repr item"
    and "in_progress_items repr raw \<le> 1" and "length raw \<le> 20"
  shows "update repr tm raw =
           (Inr (render \<lparr>items = map (normalised repr) raw\<rparr>),
            \<lparr>items = map (normalised repr) raw\<rparr>)"
proof -
  have "validate_items repr 0 raw [] 0
      = Inr ([] @ map (normalised repr) raw, 0 + in_progress_items repr raw)"
    using assms(1) by (rule validate_items_ok)
  then show ?thesis using assms(2,3) by (simp add: update_def Let_def render_def)
qed

lemma strip_examples:
  "strip '' a b '' = ''a b'' \<and> strip nbsp = [] \<and> strip (wide_space @ [LF]) = []
   \<and> strip (''a'' @ nbsp) = ''a'' \<and> strip (nbsp @ ''a'' @ wide_space @ '' '') = ''a''
   \<and> strip [CHR 0xE4, CHR 0xBD, CHR 0xA0] = [CHR 0xE4, CHR 0xBD, CHR 0xA0]"
  by code_simp

text \<open>
  C3 (as the code has it). \<open>update\<close> raises exactly when some item is not a
  dictionary, or has a content or an activeForm whose text (\<open>str\<close> of the value, the
  empty text when the key is absent) is empty once surrounding whitespace is stripped,
  or a status whose text (\<open>pending\<close> when the key is absent) is in lower case none of
  pending, in_progress, completed, or more than one item is in progress, or there are
  more than 20 items; and whenever it raises the stored list is the one from before
  the call.
\<close>

theorem update_fails_iff:
  "(isl (fst (update repr tm raw)) \<longleftrightarrow>
      (\<exists>item\<in>set raw. item_rejected repr item) \<or> 1 < in_progress_items repr raw
        \<or> 20 < length raw)
   \<and> (isl (fst (update repr tm raw)) \<longrightarrow> snd (update repr tm raw) = tm)"
proof
  show "isl (fst (update repr tm raw)) \<longleftrightarrow>
      (\<exists>item\<in>set raw. item_rejected repr item) \<or> 1 < in_progress_items repr raw
        \<or> 20 < length raw"
    by (rule update_fails_iff_aux)
  show "isl (fst (update repr tm raw)) \<longrightarrow> snd (update repr tm raw) = tm"
    using update_atomic by blast
qed

text \<open>
  Two items in progress, and a list whose second item has a content of two spaces
  that are not ASCII (U+00A0 and U+3000): both are refused, the second with the
  message of the content check, and the stored list stays. A content that is
  \<open>null\<close> is read as the text \<open>None\<close> and accepted, and stored as such, with the
  status \<open>pending\<close> of an item that has none. An item that is a string, not a
  dictionary, raises an \<open>AttributeError\<close>.
\<close>

theorem update_fails_iff_witness:
  "isl (fst (update example_repr old_list
          [todo ''a'' ''in_progress'' ''A'', todo ''b'' ''in_progress'' ''B'']))
   \<and> snd (update example_repr old_list
          [todo ''a'' ''in_progress'' ''A'', todo ''b'' ''in_progress'' ''B'']) = old_list
   \<and> update example_repr old_list
          [todo ''a'' ''pending'' ''A'', todo (nbsp @ wide_space) ''pending'' ''B'']
       = (Inl (ValueError ''Item 1: content required''), old_list)
   \<and> \<not> isl (fst (update example_repr old_list
          [JObj [(''content'', JNull), (''activeForm'', JStr ''A'')]]))
   \<and> snd (update example_repr old_list
          [JObj [(''content'', JNull), (''activeForm'', JStr ''A'')]])
       = \<lparr>items = [\<lparr>item_content = ''None'', item_status = ''pending'',
                      item_activeForm = ''A''\<rparr>]\<rparr>
   \<and> update example_repr old_list [todo ''a'' ''pending'' ''A'', JStr ''b'']
       = (Inl AttributeError, old_list)"
proof -
  let ?two = "[todo ''a'' ''in_progress'' ''A'', todo ''b'' ''in_progress'' ''B'']"
  let ?blank = "[todo ''a'' ''pending'' ''A'', todo (nbsp @ wide_space) ''pending'' ''B'']"
  let ?null = "[JObj [(''content'', JNull), (''activeForm'', JStr ''A'')]]"
  let ?text = "[todo ''a'' ''pending'' ''A'', JStr ''b'']"
  have two: "1 < in_progress_items example_repr ?two"
    by code_simp
  have blank: "\<exists>item\<in>set ?blank. item_rejected example_repr item"
    by code_simp
  have null: "\<not> ((\<exists>item\<in>set ?null. item_rejected example_repr item)
      \<or> 1 < in_progress_items example_repr ?null \<or> 20 < length ?null)"
    by code_simp
  have message: "fst (update example_repr old_list ?blank)
      = Inl (ValueError ''Item 1: content required'')"
    by code_simp
  from update_fails_iff [of example_repr old_list ?two] two
  have a: "isl (fst (update example_repr old_list ?two))
      \<and> snd (update example_repr old_list ?two) = old_list"
    by blast
  from update_fails_iff [of example_repr old_list ?blank] blank
  have "snd (update example_repr old_list ?blank) = old_list"
    by blast
  with message have b: "update example_repr old_list ?blank
      = (Inl (ValueError ''Item 1: content required''), old_list)"
    by (simp add: prod_eq_iff)
  from update_fails_iff [of example_repr old_list ?null] null
  have c: "\<not> isl (fst (update example_repr old_list ?null))"
    by blast
  have "\<exists>item\<in>set ?text. item_rejected example_repr item"
    by code_simp
  with update_fails_iff [of example_repr old_list ?text]
  have "snd (update example_repr old_list ?text) = old_list"
    by blast
  moreover have "fst (update example_repr old_list ?text) = Inl AttributeError"
    by code_simp
  ultimately have d: "update example_repr old_list ?text = (Inl AttributeError, old_list)"
    by (simp add: prod_eq_iff)
  have e: "snd (update example_repr old_list ?null)
      = \<lparr>items = [\<lparr>item_content = ''None'', item_status = ''pending'',
                     item_activeForm = ''A''\<rparr>]\<rparr>"
    by code_simp
  from a b c d e show ?thesis by blast
qed

text \<open>
  C3 as stated fails in both directions: a status written \<open>Completed\<close> is outside the
  three names and yet accepted (it is lower-cased first), and a content of one space is
  not empty and yet rejected (it is stripped first).
\<close>

theorem update_fails_iff_counterexample:
  "claimed_invalid [todo ''a'' ''Completed'' ''x'']
   \<and> update example_repr \<lparr>items = []\<rparr> [todo ''a'' ''Completed'' ''x'']
       = (Inr (''[x] a'' @ [LF, LF] @ ''(1/1 completed)''),
          \<lparr>items = [\<lparr>item_content = ''a'', item_status = ''completed'',
                      item_activeForm = ''x''\<rparr>]\<rparr>)
   \<and> \<not> claimed_invalid [todo '' '' ''pending'' ''x'']
   \<and> update example_repr \<lparr>items = []\<rparr> [todo '' '' ''pending'' ''x'']
       = (Inl (ValueError ''Item 0: content required''), \<lparr>items = []\<rparr>)"
  by code_simp

subsection \<open>What \<open>update\<close> renders\<close>

lemma split_on_nosep: "c \<notin> set x \<Longrightarrow> split_on c x = [x]"
  by (induction x) (auto split: list.splits)

lemma split_on_app: "c \<notin> set x \<Longrightarrow> split_on c (x @ c # ys) = x # split_on c ys"
  by (induction x) (auto split: list.splits)

lemma split_join:
  "xs \<noteq> [] \<Longrightarrow> \<forall>x\<in>set xs. c \<notin> set x \<Longrightarrow> split_on c (join [c] xs) = xs"
  by (induction "[c]" xs rule: join.induct) (auto simp: split_on_nosep split_on_app)

lemma join_snoc: "xs \<noteq> [] \<Longrightarrow> join sep (xs @ [y]) = join sep xs @ sep @ y"
  by (induction sep xs rule: join.induct) auto

lemma digit_char_nolf: "d < 10 \<Longrightarrow> digit_char d \<noteq> LF"
proof
  assume d: "d < 10" and "digit_char d = LF"
  then have "(of_char (digit_char d) :: nat) = of_char LF" by simp
  then show False using d by (simp add: digit_char_def)
qed

lemma show_nat_nolf: "LF \<notin> set (show_nat n)"
proof (induction n rule: show_nat.induct)
  case (1 n)
  show ?case
  proof (cases "n < 10")
    case True
    then show ?thesis using digit_char_nolf [of n] by (subst show_nat.simps) auto
  next
    case False
    have "digit_char (n mod 10) \<noteq> LF" by (rule digit_char_nolf) simp
    with 1 False show ?thesis by (subst show_nat.simps) (auto simp del: show_nat.simps)
  qed
qed

lemma summary_line_nolf: "LF \<notin> set (summary_line its)"
  by (simp add: summary_line_def show_nat_nolf)

lemma render_line_nolf:
  "LF \<notin> set (item_content t) \<Longrightarrow> LF \<notin> set (item_activeForm t) \<Longrightarrow> LF \<notin> set (render_line t)"
  by (simp add: render_line_def)

lemma render_lines:
  assumes "its \<noteq> []"
    and "\<forall>t\<in>set its. LF \<notin> set (item_content t) \<and> LF \<notin> set (item_activeForm t)"
  shows "split_on LF (render \<lparr>items = its\<rparr>) = map render_line its @ [[], summary_line its]"
proof -
  have "join [LF] ((map render_line its @ [[]]) @ [summary_line its])
          = join [LF] (map render_line its @ [[]]) @ [LF] @ summary_line its"
    by (rule join_snoc) simp
  moreover have "join [LF] (map render_line its @ [[]]) = join [LF] (map render_line its) @ [LF] @ []"
    by (rule join_snoc) (simp add: assms(1))
  moreover have "render \<lparr>items = its\<rparr>
          = join [LF] (map render_line its) @ [LF] @ [LF] @ summary_line its"
    using assms(1) by (simp add: render_def join_snoc)
  ultimately have "render \<lparr>items = its\<rparr> = join [LF] (map render_line its @ [[]] @ [summary_line its])"
    by simp
  moreover have "\<forall>x\<in>set (map render_line its @ [[]] @ [summary_line its]). LF \<notin> set x"
    using assms(2) by (auto simp: summary_line_nolf render_line_nolf)
  ultimately show ?thesis by (simp add: split_join del: join.simps)
qed


text \<open>
  C8 (as the code has it). A list that passes the checks of \<open>update\<close> (at most 20
  items, at most one in progress, every item a dictionary whose content and
  activeForm have a text that is not empty once stripped and whose status is one of
  the three names up to case) replaces the stored list whatever it was: the new list
  holds exactly the normalised items. An empty list renders as \<open>No todos.\<close>; otherwise
  the rendering is one entry per item, each starting with the glyph of its status,
  joined by line feeds and followed by an empty line and \<open>(k/n completed)\<close> with
  \<open>k\<close> the number of completed items and \<open>n\<close> the length of the list. When no
  content and no activeForm holds a line feed, the lines of the rendering are exactly
  one per item, then the empty line, then the summary.
\<close>

theorem update_render:
  assumes "\<forall>item\<in>set raw. \<not> item_rejected repr item"
    and "in_progress_items repr raw \<le> 1" and "length raw \<le> 20"
  shows "(let its = map (normalised repr) raw;
              summary = ''('' @ show_nat (length (filter (\<lambda>t. item_status t = ''completed'') its))
                         @ ''/'' @ show_nat (length raw) @ '' completed)''
          in update repr tm raw = (Inr (render \<lparr>items = its\<rparr>), \<lparr>items = its\<rparr>) \<and>
             (raw = [] \<longrightarrow> render \<lparr>items = its\<rparr> = ''No todos.'') \<and>
             (raw \<noteq> [] \<longrightarrow>
                render \<lparr>items = its\<rparr> = join [LF] (map render_line its) @ [LF, LF] @ summary) \<and>
             (\<forall>t\<in>set its. take 4 (render_line t) =
                (if item_status t = ''completed'' then ''[x] ''
                 else if item_status t = ''in_progress'' then ''[>] '' else ''[ ] '')) \<and>
             (raw \<noteq> [] \<and> (\<forall>t\<in>set its. LF \<notin> set (item_content t) \<and> LF \<notin> set (item_activeForm t)) \<longrightarrow>
                split_on LF (render \<lparr>items = its\<rparr>) = map render_line its @ [[], summary]))"
proof -
  define its where "its = map (normalised repr) raw"
  have upd: "update repr tm raw = (Inr (render \<lparr>items = its\<rparr>), \<lparr>items = its\<rparr>)"
    unfolding its_def using assms by (rule update_accepts)
  have empty: "raw = [] \<longrightarrow> render \<lparr>items = its\<rparr> = ''No todos.''"
    by (simp add: its_def render_def)
  have sum: "summary_line its =
      ''('' @ show_nat (length (filter (\<lambda>t. item_status t = ''completed'') its))
        @ ''/'' @ show_nat (length raw) @ '' completed)''"
    by (simp add: summary_line_def its_def)
  have body: "raw \<noteq> [] \<longrightarrow>
      render \<lparr>items = its\<rparr> = join [LF] (map render_line its) @ [LF, LF] @ summary_line its"
    by (simp add: its_def render_def join_snoc)
  have glyph: "\<forall>t\<in>set its. take 4 (render_line t) =
      (if item_status t = ''completed'' then ''[x] ''
       else if item_status t = ''in_progress'' then ''[>] '' else ''[ ] '')"
    by (simp add: render_line_def)
  have lines: "raw \<noteq> [] \<and> (\<forall>t\<in>set its. LF \<notin> set (item_content t) \<and> LF \<notin> set (item_activeForm t)) \<longrightarrow>
      split_on LF (render \<lparr>items = its\<rparr>) = map render_line its @ [[], summary_line its]"
    using render_lines [of its] by (simp add: its_def)
  from upd empty body glyph lines show ?thesis
    unfolding Let_def its_def [symmetric] sum [symmetric] by blast
qed

text \<open>
  Three items replace the stored one. The content of the first ends with U+00A0,
  which is stripped; the status of the third is absent and read as \<open>pending\<close>, and
  its content is the number 7, read as the text \<open>7\<close>.
\<close>

theorem update_render_witness:
  "update example_repr old_list
     [todo (''a'' @ nbsp) ''Completed'' ''A'', todo ''b'' ''in_progress'' ''B'',
      JObj [(''content'', JNum 7), (''activeForm'', JStr ''C'')]]
   = (Inr (''[x] a'' @ [LF] @ ''[>] b <- B'' @ [LF] @ ''[ ] 7'' @ [LF, LF] @ ''(1/3 completed)''),
      \<lparr>items = [\<lparr>item_content = ''a'', item_status = ''completed'', item_activeForm = ''A''\<rparr>,
                \<lparr>item_content = ''b'', item_status = ''in_progress'', item_activeForm = ''B''\<rparr>,
                \<lparr>item_content = ''7'', item_status = ''pending'', item_activeForm = ''C''\<rparr>]\<rparr>)"
proof -
  let ?raw = "[todo (''a'' @ nbsp) ''Completed'' ''A'', todo ''b'' ''in_progress'' ''B'',
      JObj [(''content'', JNum 7), (''activeForm'', JStr ''C'')]]"
  have h1: "\<forall>item\<in>set ?raw. \<not> item_rejected example_repr item" by code_simp
  have h2: "in_progress_items example_repr ?raw \<le> 1" by code_simp
  have h3: "length ?raw \<le> 20" by simp
  have its: "map (normalised example_repr) ?raw =
      [\<lparr>item_content = ''a'', item_status = ''completed'', item_activeForm = ''A''\<rparr>,
       \<lparr>item_content = ''b'', item_status = ''in_progress'', item_activeForm = ''B''\<rparr>,
       \<lparr>item_content = ''7'', item_status = ''pending'', item_activeForm = ''C''\<rparr>]"
    by code_simp
  have r: "render \<lparr>items = map (normalised example_repr) ?raw\<rparr>
      = ''[x] a'' @ [LF] @ ''[>] b <- B'' @ [LF] @ ''[ ] 7'' @ [LF, LF] @ ''(1/3 completed)''"
    by code_simp
  have "update example_repr old_list ?raw
      = (Inr (render \<lparr>items = map (normalised example_repr) ?raw\<rparr>),
         \<lparr>items = map (normalised example_repr) ?raw\<rparr>)"
    using update_render [OF h1 h2 h3, of old_list] unfolding Let_def by (rule conjunct1)
  then show ?thesis unfolding r unfolding its .
qed

text \<open>
  C8 as stated fails on a valid item whose content holds a line feed: the item takes
  two lines of the rendering, here both starting with a status glyph, for a list of
  one item.
\<close>

theorem update_render_counterexample:
  "\<not> item_rejected example_repr (todo (''a'' @ [LF] @ ''[x] b'') ''pending'' ''x'')
   \<and> fst (update example_repr \<lparr>items = []\<rparr> [todo (''a'' @ [LF] @ ''[x] b'') ''pending'' ''x''])
     = Inr (''[ ] a'' @ [LF] @ ''[x] b'' @ [LF, LF] @ ''(0/1 completed)'')
   \<and> split_on LF (''[ ] a'' @ [LF] @ ''[x] b'' @ [LF, LF] @ ''(0/1 completed)'')
     = [''[ ] a'', ''[x] b'', [], ''(0/1 completed)'']
   \<and> length (glyph_lines (''[ ] a'' @ [LF] @ ''[x] b'' @ [LF, LF] @ ''(0/1 completed)'')) = 2"
  by code_simp


section \<open>Response normalizer (llm_factory.py, LLMChatAdapter.chat_with_tools)\<close>

text \<open>
  \<open>json.loads\<close> is a library function: the model takes it as the parameter
  \<open>loads\<close>, \<open>None\<close> standing for any exception it raises.
\<close>

type_synonym loads = "string \<Rightarrow> json option"

fun truthy :: "json \<Rightarrow> bool" where
  \<comment> \<open>Python's truth value of a parsed value\<close>
  "truthy JNull = False"
| "truthy (JBool b) = b"
| "truthy (JNum n) = (n \<noteq> 0)"
| "truthy (JStr s) = (s \<noteq> [])"
| "truthy (JArr xs) = (xs \<noteq> [])"
| "truthy (JObj kvs) = (kvs \<noteq> [])"

fun contains :: "string \<Rightarrow> string \<Rightarrow> bool" where
  \<comment> \<open>\<open>sub in s\<close> on strings\<close>
  "contains sub [] = (sub = [])"
| "contains sub (x # xs) = (take (length sub) (x # xs) = sub \<or> contains sub xs)"

fun py_in :: "string \<Rightarrow> json \<Rightarrow> exn + bool" where
  \<comment> \<open>\<open>k in x\<close> for a string \<open>k\<close>: key of a dictionary, substring of a string,
      element of a list; a TypeError on anything else\<close>
  "py_in k (JObj kvs) = Inr (map_of kvs k \<noteq> None)"
| "py_in k (JStr s) = Inr (contains k s)"
| "py_in k (JArr xs) = Inr (JStr k \<in> set xs)"
| "py_in k _ = Inl TypeError"

fun py_item :: "json \<Rightarrow> string \<Rightarrow> exn + json" where
  \<comment> \<open>\<open>x[k]\<close> for a string \<open>k\<close>\<close>
  "py_item (JObj kvs) k = (case map_of kvs k of None \<Rightarrow> Inl KeyError | Some v \<Rightarrow> Inr v)"
| "py_item _ k = Inl TypeError"

datatype block =
    TextBlock json
  | ToolUseBlock json json json

text \<open>
  A \<open>TextBlock\<close> carries its \<open>text\<close>; a \<open>ToolUseBlock\<close> carries \<open>id\<close>, \<open>name\<close> and
  \<open>input\<close>, in this order. The source builds both from parsed values without checking
  their types, so the fields are \<open>json\<close> values.
\<close>

record response =
  resp_content :: "block list"
  stop_reason :: string

definition parse_arguments :: "loads \<Rightarrow> json \<Rightarrow> json" where
  \<comment> \<open>\<open>if isinstance(args, str): try: args = json.loads(args) except: pass\<close>\<close>
  "parse_arguments loads args =
     (case args of
        JStr s \<Rightarrow> (case loads s of Some v \<Rightarrow> v | None \<Rightarrow> args)
      | _ \<Rightarrow> args)"

definition tool_use_of :: "loads \<Rightarrow> json \<Rightarrow> exn + block option" where
  \<comment> \<open>the body of \<open>for tc in tool_list\<close>: the block appended, if any, or the exception\<close>
  "tool_use_of loads tc =
     (case py_in ''function'' tc of
        Inl e \<Rightarrow> Inl e
      | Inr False \<Rightarrow> Inr None
      | Inr True \<Rightarrow>
          (case py_item tc ''function'' of
             Inl e \<Rightarrow> Inl e
           | Inr func_data \<Rightarrow>
               (case py_item func_data ''arguments'' of
                  Inl e \<Rightarrow> Inl e
                | Inr args \<Rightarrow>
                    (case py_item func_data ''name'' of
                       Inl e \<Rightarrow> Inl e
                     | Inr name \<Rightarrow>
                         (case tc of
                            JObj kvs \<Rightarrow>
                              Inr (Some (ToolUseBlock (dict_get kvs ''id'' (JStr ''call_1'')) name
                                          (parse_arguments loads args)))
                          | _ \<Rightarrow> Inl AttributeError)))))"

fun tool_loop :: "loads \<Rightarrow> json list \<Rightarrow> block list \<Rightarrow> block list \<times> exn option" where
  \<comment> \<open>the loop over \<open>tool_list\<close>, appending to \<open>blocks\<close>; an exception leaves the
      blocks appended so far in place\<close>
  "tool_loop loads [] blocks = (blocks, None)"
| "tool_loop loads (tc # rest) blocks =
     (case tool_use_of loads tc of
        Inl e \<Rightarrow> (blocks, Some e)
      | Inr None \<Rightarrow> tool_loop loads rest blocks
      | Inr (Some b) \<Rightarrow> tool_loop loads rest (blocks @ [b]))"

definition after_loop :: "string \<Rightarrow> string \<Rightarrow> block list \<times> exn option \<Rightarrow> response" where
  \<comment> \<open>the end of the \<open>try\<close> block: the bare \<open>except\<close> appends the raw content as one
      more text block and touches neither the blocks nor the stop reason set before\<close>
  "after_loop content sr res =
     (case res of
        (blocks, None) \<Rightarrow> \<lparr>resp_content = blocks, stop_reason = sr\<rparr>
      | (blocks, Some e) \<Rightarrow>
          \<lparr>resp_content = blocks @ [TextBlock (JStr content)], stop_reason = sr\<rparr>)"

definition is_legacy :: "json \<Rightarrow> bool" where
  \<comment> \<open>a non-empty list whose first element is a dictionary with a \<open>function\<close> or a
      \<open>type\<close> key\<close>
  "is_legacy data =
     (case data of
        JArr (JObj kvs # _) \<Rightarrow> map_of kvs ''function'' \<noteq> None \<or> map_of kvs ''type'' \<noteq> None
      | _ \<Rightarrow> False)"

definition normalize_reply :: "loads \<Rightarrow> bool \<Rightarrow> string \<Rightarrow> response" where
  \<comment> \<open>lines 169 to 226: from \<open>success, content\<close> of \<open>self.chat\<close> to the Response\<close>
  "normalize_reply loads success content =
     (if success then
        (case loads content of
           None \<Rightarrow> \<lparr>resp_content = [TextBlock (JStr content)], stop_reason = ''end_turn''\<rparr>
         | Some data \<Rightarrow>
             (case data of
                JObj kvs \<Rightarrow>
                  (case map_of kvs ''tool_calls'' of
                     Some (JArr tool_list) \<Rightarrow>
                       after_loop content ''tool_use''
                         (tool_loop loads tool_list
                            (if truthy (dict_get kvs ''content'' JNull)
                             then [TextBlock (dict_get kvs ''content'' JNull)] else []))
                   | _ \<Rightarrow> \<lparr>resp_content = [TextBlock (JStr content)], stop_reason = ''end_turn''\<rparr>)
              | JArr tool_list \<Rightarrow>
                  if is_legacy data
                  then after_loop content ''tool_use'' (tool_loop loads tool_list [])
                  else \<lparr>resp_content = [TextBlock (JStr content)], stop_reason = ''end_turn''\<rparr>
              | _ \<Rightarrow> \<lparr>resp_content = [TextBlock (JStr content)], stop_reason = ''end_turn''\<rparr>))
      else \<lparr>resp_content = [TextBlock (JStr (''Error: '' @ content))], stop_reason = ''end_turn''\<rparr>)"

fun is_text :: "block \<Rightarrow> bool" where
  "is_text (TextBlock t) = True"
| "is_text (ToolUseBlock i n a) = False"

fun is_tool_use :: "block \<Rightarrow> bool" where
  "is_tool_use (TextBlock t) = False"
| "is_tool_use (ToolUseBlock i n a) = True"


subsection \<open>Replies that carry a \<open>tool_calls\<close> list\<close>

definition has_function :: "json \<Rightarrow> bool" where
  "has_function tc = (case tc of JObj kvs \<Rightarrow> map_of kvs ''function'' \<noteq> None | _ \<Rightarrow> False)"

definition call_wellformed :: "json \<Rightarrow> bool" where
  \<comment> \<open>an entry of the list is a dictionary, and its \<open>function\<close>, when it has one, is a
      dictionary with a \<open>name\<close> and \<open>arguments\<close>\<close>
  "call_wellformed tc =
     (case tc of
        JObj kvs \<Rightarrow>
          (case map_of kvs ''function'' of
             None \<Rightarrow> True
           | Some (JObj f) \<Rightarrow> map_of f ''name'' \<noteq> None \<and> map_of f ''arguments'' \<noteq> None
           | Some _ \<Rightarrow> False)
      | _ \<Rightarrow> False)"

definition claimed_input :: "loads \<Rightarrow> json \<Rightarrow> json \<Rightarrow> bool" where
  \<comment> \<open>the input of a tool_use block in the specification's words: the arguments
      parsed when they are a serialized string, the raw string when parsing fails; and
      the arguments as they are when they are no string\<close>
  "claimed_input loads args inp =
     (case args of
        JStr s \<Rightarrow> (case loads s of Some v \<Rightarrow> inp = v | None \<Rightarrow> inp = JStr s)
      | _ \<Rightarrow> inp = args)"

definition renders_call :: "loads \<Rightarrow> json \<Rightarrow> block \<Rightarrow> bool" where
  \<comment> \<open>block \<open>b\<close> is the tool_use block of entry \<open>tc\<close>: its id (\<open>call_1\<close> when absent),
      the function's name, and the input the specification describes\<close>
  "renders_call loads tc b =
     (case tc of
        JObj kvs \<Rightarrow>
          (case map_of kvs ''function'' of
             Some (JObj f) \<Rightarrow>
               (case b of
                  ToolUseBlock i n inp \<Rightarrow>
                    i = dict_get kvs ''id'' (JStr ''call_1'') \<and> map_of f ''name'' = Some n \<and>
                    (case map_of f ''arguments'' of
                       Some args \<Rightarrow> claimed_input loads args inp
                     | None \<Rightarrow> False)
                | TextBlock t \<Rightarrow> False)
           | _ \<Rightarrow> False)
      | _ \<Rightarrow> False)"

definition text_first :: "block list \<Rightarrow> bool" where
  \<comment> \<open>every text block stands before every tool_use block\<close>
  "text_first bs =
     (\<forall>i < length bs. \<forall>j < length bs. is_text (bs ! i) \<and> is_tool_use (bs ! j) \<longrightarrow> i < j)"

text \<open>The texts of the examples, and what \<open>json.loads\<close> returns on them.\<close>

definition raw_bash_call :: string where
  \<open>raw_bash_call =
     ''{"tool_calls":[{"id":"1","function":{"name":"bash","arguments":"{'' @ [CHR 0x5C]
       @ ''"command'' @ [CHR 0x5C] @ ''":'' @ [CHR 0x5C] @ ''"ls'' @ [CHR 0x5C] @ ''"}"}}]}''\<close>

definition raw_ls_arguments :: string where
  \<open>raw_ls_arguments = ''{"command":"ls"}''\<close>

definition raw_no_function :: string where
  \<open>raw_no_function = ''{"tool_calls":[{"id":"1"}]}''\<close>

definition raw_no_arguments :: string where
  \<open>raw_no_arguments = ''{"tool_calls":[{"id":"1","function":{"name":"bash"}}]}''\<close>

definition raw_text_then_bad_call :: string where
  \<open>raw_text_then_bad_call = ''{"content":"hi","tool_calls":[{"function":{"name":"bash"}}]}''\<close>

definition raw_text_then_calls :: string where
  \<open>raw_text_then_calls =
     ''{"content":"listing","tool_calls":[{"function":{"name":"bash","arguments":"ls -la"}},''
     @ ''{"id":"2","function":{"name":"read_file","arguments":{"path":"a.txt"}}}]}''\<close>

definition example_loads :: loads where
  "example_loads s =
     (if s = raw_bash_call then
        Some (JObj [(''tool_calls'', JArr [JObj [(''id'', JStr ''1''),
                (''function'', JObj [(''name'', JStr ''bash''), (''arguments'', JStr raw_ls_arguments)])]])])
      else if s = raw_ls_arguments then Some (JObj [(''command'', JStr ''ls'')])
      else if s = raw_no_function then
        Some (JObj [(''tool_calls'', JArr [JObj [(''id'', JStr ''1'')]])])
      else if s = raw_no_arguments then
        Some (JObj [(''tool_calls'', JArr [JObj [(''id'', JStr ''1''),
                (''function'', JObj [(''name'', JStr ''bash'')])]])])
      else if s = raw_text_then_bad_call then
        Some (JObj [(''content'', JStr ''hi''),
                (''tool_calls'', JArr [JObj [(''function'', JObj [(''name'', JStr ''bash'')])]])])
      else if s = raw_text_then_calls then
        Some (JObj [(''content'', JStr ''listing''),
                (''tool_calls'', JArr
                   [JObj [(''function'', JObj [(''name'', JStr ''bash''),
                                               (''arguments'', JStr ''ls -la'')])],
                    JObj [(''id'', JStr ''2''),
                          (''function'', JObj [(''name'', JStr ''read_file''),
                             (''arguments'', JObj [(''path'', JStr ''a.txt'')])])]])])
      else None)"

lemma tool_use_of_skip:
  "call_wellformed tc \<Longrightarrow> \<not> has_function tc \<Longrightarrow> tool_use_of loads tc = Inr None"
  by (auto simp: call_wellformed_def has_function_def tool_use_of_def split: json.splits)

lemma wellformed_call_fields:
  assumes "call_wellformed tc" and "has_function tc"
  obtains kvs f name args where "tc = JObj kvs" and "map_of kvs ''function'' = Some (JObj f)"
    and "map_of f ''name'' = Some name" and "map_of f ''arguments'' = Some args"
proof -
  from assms(2) obtain kvs v where tc: "tc = JObj kvs" and v: "map_of kvs ''function'' = Some v"
    by (cases tc) (auto simp: has_function_def)
  from assms(1) tc v obtain f where f: "v = JObj f"
    by (cases v) (simp_all add: call_wellformed_def)
  from assms(1) tc v f obtain name args where
    "map_of f ''name'' = Some name" "map_of f ''arguments'' = Some args"
    by (auto simp: call_wellformed_def)
  with tc v f that show thesis by blast
qed

lemma parse_arguments_claimed: "claimed_input loads args (parse_arguments loads args)"
  by (simp add: claimed_input_def parse_arguments_def split: json.splits option.splits)

lemma tool_use_of_block:
  assumes "call_wellformed tc" and "has_function tc"
  shows "\<exists>b. tool_use_of loads tc = Inr (Some b) \<and> renders_call loads tc b"
proof -
  from assms obtain kvs f name args where
    "tc = JObj kvs" "map_of kvs ''function'' = Some (JObj f)"
    "map_of f ''name'' = Some name" "map_of f ''arguments'' = Some args"
    by (rule wellformed_call_fields)
  then show ?thesis by (simp add: tool_use_of_def renders_call_def parse_arguments_claimed)
qed

lemma tool_loop_wellformed:
  "\<forall>tc\<in>set calls. call_wellformed tc \<Longrightarrow>
   \<exists>tus. tool_loop loads calls bs = (bs @ tus, None) \<and>
         list_all2 (renders_call loads) (filter has_function calls) tus"
proof (induction calls arbitrary: bs)
  case Nil
  then show ?case by simp
next
  case (Cons tc calls)
  show ?case
  proof (cases "has_function tc")
    case False
    with Cons.prems have "tool_use_of loads tc = Inr None"
      by (simp add: tool_use_of_skip)
    moreover from Cons obtain tus where
      "tool_loop loads calls bs = (bs @ tus, None)"
      "list_all2 (renders_call loads) (filter has_function calls) tus"
      by fastforce
    ultimately show ?thesis using False by simp
  next
    case True
    with Cons.prems obtain b where b:
      "tool_use_of loads tc = Inr (Some b)" "renders_call loads tc b"
      using tool_use_of_block [of tc loads] by auto
    from Cons obtain tus where tus:
      "tool_loop loads calls (bs @ [b]) = ((bs @ [b]) @ tus, None)"
      "list_all2 (renders_call loads) (filter has_function calls) tus"
      by fastforce
    have "tool_loop loads (tc # calls) bs = (bs @ (b # tus), None)"
      using b(1) tus(1) by simp
    moreover have "list_all2 (renders_call loads) (filter has_function (tc # calls)) (b # tus)"
      using True b(2) tus(2) by simp
    ultimately show ?thesis by blast
  qed
qed

lemma tool_loop_appends: "\<exists>more. fst (tool_loop loads calls bs) = bs @ more"
proof (induction calls arbitrary: bs)
  case Nil
  then show ?case by simp
next
  case (Cons tc calls)
  show ?case
  proof (cases "tool_use_of loads tc")
    case (Inl e)
    then show ?thesis by simp
  next
    case (Inr ob)
    show ?thesis
    proof (cases ob)
      case None
      with Inr Cons.IH [of bs] show ?thesis by simp
    next
      case (Some b)
      from Cons.IH [of "bs @ [b]"] obtain more where
        "fst (tool_loop loads calls (bs @ [b])) = (bs @ [b]) @ more" by blast
      with Inr Some show ?thesis by simp
    qed
  qed
qed

lemma renders_call_tool_use:
  assumes "renders_call loads tc b"
  shows "is_tool_use b"
proof (cases b)
  case (TextBlock t)
  have "\<not> renders_call loads tc (TextBlock t)"
  proof (cases tc)
    case (JObj kvs)
    show ?thesis
    proof (cases "map_of kvs ''function''")
      case None
      with JObj show ?thesis by (simp add: renders_call_def)
    next
      case (Some v)
      with JObj show ?thesis by (cases v) (simp_all add: renders_call_def)
    qed
  qed (simp_all add: renders_call_def)
  with assms TextBlock show ?thesis by simp
next
  case (ToolUseBlock i n inp)
  then show ?thesis by simp
qed

lemma text_first_append:
  assumes "\<forall>b\<in>set ls. is_text b" and "\<forall>b\<in>set tus. is_tool_use b"
  shows "text_first (ls @ tus)"
  unfolding text_first_def
proof (intro allI impI)
  fix i j
  assume i: "i < length (ls @ tus)" and j: "j < length (ls @ tus)"
    and ij: "is_text ((ls @ tus) ! i) \<and> is_tool_use ((ls @ tus) ! j)"
  have "i < length ls"
  proof (rule ccontr)
    assume "\<not> i < length ls"
    with i have "(ls @ tus) ! i \<in> set tus" by (simp add: nth_append)
    with assms(2) ij show False by (cases "(ls @ tus) ! i") auto
  qed
  moreover have "\<not> j < length ls"
  proof
    assume "j < length ls"
    then have "(ls @ tus) ! j \<in> set ls" by (simp add: nth_append)
    with assms(1) ij show False by (cases "(ls @ tus) ! j") auto
  qed
  ultimately show "i < j" by simp
qed


lemma normalize_new_format:
  assumes "loads raw = Some (JObj obj)" and "map_of obj ''tool_calls'' = Some (JArr calls)"
  shows "normalize_reply loads True raw =
           after_loop raw ''tool_use''
             (tool_loop loads calls
                (if truthy (dict_get obj ''content'' JNull)
                 then [TextBlock (dict_get obj ''content'' JNull)] else []))"
  using assms by (simp add: normalize_reply_def)

lemma stop_reason_after_loop: "stop_reason (after_loop content sr res) = sr"
  by (cases res) (simp add: after_loop_def split: option.splits)

lemma content_after_loop:
  "\<exists>more. resp_content (after_loop content sr (tool_loop loads calls bs)) = bs @ more"
proof -
  obtain more where more: "fst (tool_loop loads calls bs) = bs @ more"
    using tool_loop_appends by blast
  show ?thesis
  proof (cases "tool_loop loads calls bs")
    case (Pair blocks raised)
    with more show ?thesis by (cases raised) (simp_all add: after_loop_def)
  qed
qed

text \<open>
  C4 (as the code has it). When the raw reply parses as a JSON object with a
  \<open>tool_calls\<close> list, and every entry of the list is an object whose \<open>function\<close>
  field, if present, is an object with \<open>name\<close> and \<open>arguments\<close>: the stop reason is
  \<open>tool_use\<close>; a content field that is non-empty (true in Python's sense) gives the
  first block, a text block, and an empty or absent one gives none; the blocks after
  it are the tool_use blocks of the entries that have a \<open>function\<close> field, one per
  such entry and in their order (entries without the field give no block), each with
  the id of the entry (\<open>call_1\<close> when absent), the name of the function, and as input
  the arguments parsed when they are a string that parses, the string itself when it
  does not parse; and every text block stands before every tool_use block.
\<close>

theorem normalize_tool_calls:
  assumes "loads raw = Some (JObj obj)" and "map_of obj ''tool_calls'' = Some (JArr calls)"
    and "\<forall>tc\<in>set calls. call_wellformed tc"
  shows "stop_reason (normalize_reply loads True raw) = ''tool_use'' \<and>
         (\<exists>tus. resp_content (normalize_reply loads True raw)
                   = (if truthy (dict_get obj ''content'' JNull)
                      then [TextBlock (dict_get obj ''content'' JNull)] else []) @ tus \<and>
                list_all2 (renders_call loads) (filter has_function calls) tus) \<and>
         text_first (resp_content (normalize_reply loads True raw))"
proof -
  let ?lead = "if truthy (dict_get obj ''content'' JNull)
               then [TextBlock (dict_get obj ''content'' JNull)] else []"
  have n: "normalize_reply loads True raw = after_loop raw ''tool_use'' (tool_loop loads calls ?lead)"
    using assms(1,2) by (rule normalize_new_format)
  have sr: "stop_reason (normalize_reply loads True raw) = ''tool_use''"
    unfolding n by (rule stop_reason_after_loop)
  from assms(3) obtain tus where tus: "tool_loop loads calls ?lead = (?lead @ tus, None)"
    "list_all2 (renders_call loads) (filter has_function calls) tus"
    using tool_loop_wellformed by blast
  have c: "resp_content (normalize_reply loads True raw) = ?lead @ tus"
    unfolding n tus(1) by (simp add: after_loop_def)
  have "\<forall>b\<in>set tus. is_tool_use b"
    using tus(2) renders_call_tool_use by (fastforce simp: list_all2_conv_all_nth in_set_conv_nth)
  moreover have "\<forall>b\<in>set ?lead. is_text b" by simp
  ultimately have "text_first (?lead @ tus)" by (intro text_first_append)
  with sr c tus(2) show ?thesis by auto
qed

text \<open>
  The example of C4: one tool_use block named bash with input \<open>{"command": "ls"}\<close>.
  And a reply with a content and two calls: the text block comes first; the arguments
  \<open>ls -la\<close> of the first call do not parse and stay the string, its id is \<open>call_1\<close>;
  the arguments of the second are a dictionary already.
\<close>

theorem normalize_tool_calls_witness:
  "normalize_reply example_loads True raw_bash_call
     = \<lparr>resp_content = [ToolUseBlock (JStr ''1'') (JStr ''bash'') (JObj [(''command'', JStr ''ls'')])],
        stop_reason = ''tool_use''\<rparr>
   \<and> normalize_reply example_loads True raw_text_then_calls
     = \<lparr>resp_content =
          [TextBlock (JStr ''listing''),
           ToolUseBlock (JStr ''call_1'') (JStr ''bash'') (JStr ''ls -la''),
           ToolUseBlock (JStr ''2'') (JStr ''read_file'') (JObj [(''path'', JStr ''a.txt'')])],
        stop_reason = ''tool_use''\<rparr>"
proof -
  let ?entry = "JObj [(''id'', JStr ''1''),
      (''function'', JObj [(''name'', JStr ''bash''), (''arguments'', JStr raw_ls_arguments)])]"
  let ?obj = "[(''tool_calls'', JArr [?entry])]"
  let ?bash = "JObj [(''function'', JObj [(''name'', JStr ''bash''), (''arguments'', JStr ''ls -la'')])]"
  let ?read = "JObj [(''id'', JStr ''2''),
      (''function'', JObj [(''name'', JStr ''read_file''),
         (''arguments'', JObj [(''path'', JStr ''a.txt'')])])]"
  let ?obj2 = "[(''content'', JStr ''listing''), (''tool_calls'', JArr [?bash, ?read])]"
  have l1: "example_loads raw_bash_call = Some (JObj ?obj)"
    by (simp add: example_loads_def)
  have l2: "example_loads raw_ls_arguments = Some (JObj [(''command'', JStr ''ls'')])"
    by (simp add: example_loads_def raw_ls_arguments_def raw_bash_call_def)
  have l3: "example_loads raw_text_then_calls = Some (JObj ?obj2)"
    by (simp add: example_loads_def raw_text_then_calls_def raw_bash_call_def
          raw_ls_arguments_def raw_no_function_def raw_no_arguments_def
          raw_text_then_bad_call_def)
  have l4: "example_loads ''ls -la'' = None"
    by (simp add: example_loads_def raw_text_then_calls_def raw_bash_call_def
          raw_ls_arguments_def raw_no_function_def raw_no_arguments_def
          raw_text_then_bad_call_def)
  have wf1: "\<forall>tc\<in>set [?entry]. call_wellformed tc" by (simp add: call_wellformed_def)
  have wf2: "\<forall>tc\<in>set [?bash, ?read]. call_wellformed tc" by (simp add: call_wellformed_def)
  have m1: "map_of ?obj ''tool_calls'' = Some (JArr [?entry])" by simp
  have m2: "map_of ?obj2 ''tool_calls'' = Some (JArr [?bash, ?read])" by simp
  from normalize_tool_calls [of example_loads raw_bash_call ?obj "[?entry]"] l1 m1 wf1
  obtain tus where sr1: "stop_reason (normalize_reply example_loads True raw_bash_call) = ''tool_use''"
    and c1: "resp_content (normalize_reply example_loads True raw_bash_call) = tus"
    and r1: "list_all2 (renders_call example_loads) (filter has_function [?entry]) tus"
    by (auto simp: dict_get_def)
  from r1 obtain b where b: "tus = [b]" "renders_call example_loads ?entry b"
    by (auto simp: has_function_def list_all2_Cons1)
  from b(2) have "b = ToolUseBlock (JStr ''1'') (JStr ''bash'') (JObj [(''command'', JStr ''ls'')])"
    by (cases b) (simp_all add: renders_call_def claimed_input_def dict_get_def l2)
  with b(1) have "tus = [ToolUseBlock (JStr ''1'') (JStr ''bash'') (JObj [(''command'', JStr ''ls'')])]"
    by simp
  with sr1 c1 have one: "normalize_reply example_loads True raw_bash_call
     = \<lparr>resp_content = [ToolUseBlock (JStr ''1'') (JStr ''bash'') (JObj [(''command'', JStr ''ls'')])],
        stop_reason = ''tool_use''\<rparr>"
    by (cases "normalize_reply example_loads True raw_bash_call") simp
  from normalize_tool_calls [of example_loads raw_text_then_calls ?obj2 "[?bash, ?read]"] l3 m2 wf2
  obtain tus2 where sr2: "stop_reason (normalize_reply example_loads True raw_text_then_calls) = ''tool_use''"
    and c2: "resp_content (normalize_reply example_loads True raw_text_then_calls)
               = TextBlock (JStr ''listing'') # tus2"
    and r2: "list_all2 (renders_call example_loads) (filter has_function [?bash, ?read]) tus2"
    by (auto simp: dict_get_def)
  from r2 obtain b1 b2 where b12: "tus2 = [b1, b2]" "renders_call example_loads ?bash b1"
      "renders_call example_loads ?read b2"
    by (auto simp: has_function_def list_all2_Cons1)
  from b12(2) have "b1 = ToolUseBlock (JStr ''call_1'') (JStr ''bash'') (JStr ''ls -la'')"
    by (cases b1) (simp_all add: renders_call_def claimed_input_def dict_get_def l4)
  moreover from b12(3) have
    "b2 = ToolUseBlock (JStr ''2'') (JStr ''read_file'') (JObj [(''path'', JStr ''a.txt'')])"
    by (cases b2) (simp_all add: renders_call_def claimed_input_def dict_get_def)
  ultimately have "tus2 = [ToolUseBlock (JStr ''call_1'') (JStr ''bash'') (JStr ''ls -la''),
      ToolUseBlock (JStr ''2'') (JStr ''read_file'') (JObj [(''path'', JStr ''a.txt'')])]"
    using b12(1) by simp
  with sr2 c2 have two: "normalize_reply example_loads True raw_text_then_calls
     = \<lparr>resp_content =
          [TextBlock (JStr ''listing''),
           ToolUseBlock (JStr ''call_1'') (JStr ''bash'') (JStr ''ls -la''),
           ToolUseBlock (JStr ''2'') (JStr ''read_file'') (JObj [(''path'', JStr ''a.txt'')])],
        stop_reason = ''tool_use''\<rparr>"
    by (cases "normalize_reply example_loads True raw_text_then_calls") simp
  from one two show ?thesis by simp
qed

text \<open>
  C4 as stated fails on an entry without a \<open>function\<close> field: the guard
  \<open>if "function" in tc\<close> skips it, and a list of one entry gives no tool_use block.
\<close>

theorem normalize_tool_calls_counterexample:
  "example_loads raw_no_function = Some (JObj [(''tool_calls'', JArr [JObj [(''id'', JStr ''1'')]])])
   \<and> resp_content (normalize_reply example_loads True raw_no_function) = []
   \<and> stop_reason (normalize_reply example_loads True raw_no_function) = ''tool_use''"
  by (simp add: example_loads_def raw_no_function_def raw_bash_call_def raw_ls_arguments_def
        normalize_reply_def after_loop_def tool_use_of_def dict_get_def)

subsection \<open>Replies that do not parse\<close>

lemma normalize_not_json:
  "loads raw = None \<Longrightarrow>
   normalize_reply loads True raw = \<lparr>resp_content = [TextBlock (JStr raw)], stop_reason = ''end_turn''\<rparr>"
  by (simp add: normalize_reply_def)

lemma normalize_failed_call:
  "normalize_reply loads False msg
     = \<lparr>resp_content = [TextBlock (JStr (''Error: '' @ msg))], stop_reason = ''end_turn''\<rparr>"
  by (simp add: normalize_reply_def)

text \<open>
  C5 at the failing inputs. A reply that is a JSON object with a \<open>tool_calls\<close> list
  whose entry has a \<open>function\<close> without \<open>arguments\<close> does not parse as a tool call:
  the \<open>KeyError\<close> is caught by the bare \<open>except\<close>, which appends the raw text as a text
  block. The stop reason set before the failure stays \<open>tool_use\<close>, not \<open>end_turn\<close>,
  and a text block appended before the failure stays too, so the result need not be a
  single block.
\<close>

theorem normalize_malformed_call:
  "normalize_reply example_loads True raw_no_arguments
     = \<lparr>resp_content = [TextBlock (JStr raw_no_arguments)], stop_reason = ''tool_use''\<rparr>
   \<and> normalize_reply example_loads True raw_text_then_bad_call
     = \<lparr>resp_content = [TextBlock (JStr ''hi''), TextBlock (JStr raw_text_then_bad_call)],
         stop_reason = ''tool_use''\<rparr>"
  by (simp add: example_loads_def raw_no_function_def raw_bash_call_def raw_ls_arguments_def
        raw_no_arguments_def raw_text_then_bad_call_def raw_text_then_calls_def
        normalize_reply_def after_loop_def tool_use_of_def dict_get_def)


section \<open>Request building (llm_factory.py, LLMChatAdapter)\<close>

text \<open>
  A history entry is a dictionary with the keys \<open>role\<close> and \<open>content\<close>, read with
  \<open>get\<close> and a default. The adapter keeps the system prompt set by
  \<open>appendSystemInfo\<close> and the number of messages to keep; \<open>__init__\<close> sets them to
  the empty text and 20.
\<close>

type_synonym message = "(string \<times> string) list"

definition msg :: "string \<Rightarrow> string \<Rightarrow> message" where
  \<comment> \<open>\<open>{"role": r, "content": c}\<close>\<close>
  "msg r c = [(''role'', r), (''content'', c)]"

datatype lc_message =
    SystemMessage string
  | HumanMessage string
  | AIMessage string

record adapter =
  system_info :: string
  keep_messages_count :: int

definition LLMChatAdapter_init :: adapter where
  "LLMChatAdapter_init = \<lparr>system_info = [], keep_messages_count = 20\<rparr>"

definition appendSystemInfo :: "adapter \<Rightarrow> string \<Rightarrow> adapter" where
  "appendSystemInfo a info = a\<lparr>system_info := info\<rparr>"

definition recent_messages :: "int \<Rightarrow> 'a list \<Rightarrow> 'a list" where
  \<comment> \<open>\<open>h[-k:] if len(h) > k else h\<close>, with Python's slice: \<open>h[-0:]\<close> is all of
      \<open>h\<close>, and a negative \<open>k\<close> drops the first \<open>-k\<close> entries\<close>
  "recent_messages k h =
     (if int (length h) > k
      then (if k > 0 then drop (length h - nat k) h else drop (nat (- k)) h)
      else h)"

definition to_langchain :: "message \<Rightarrow> lc_message" where
  \<comment> \<open>the body of \<open>for msg in recent_messages\<close>\<close>
  "to_langchain m =
     (let role = dict_get m ''role'' ''user''; content = dict_get m ''content'' ''''
      in if role = ''system'' then SystemMessage content
         else if role = ''assistant'' then AIMessage content
         else HumanMessage content)"

definition system_part :: "adapter \<Rightarrow> lc_message list" where
  \<comment> \<open>\<open>if self.system_info: messages.append(SystemMessage(...))\<close>\<close>
  "system_part a = (if system_info a \<noteq> [] then [SystemMessage (system_info a)] else [])"

definition build_langchain_messages ::
  "adapter \<Rightarrow> message list option \<Rightarrow> string \<Rightarrow> lc_message list" where
  \<comment> \<open>\<open>history_messages\<close> is \<open>None\<close> or a list; both \<open>None\<close> and the empty list are
      false\<close>
  "build_langchain_messages a history_messages prompt_text =
     (case history_messages of
        None \<Rightarrow> system_part a @ [HumanMessage prompt_text]
      | Some [] \<Rightarrow> system_part a @ [HumanMessage prompt_text]
      | Some h \<Rightarrow> system_part a @ map to_langchain (recent_messages (keep_messages_count a) h))"

lemma recent_messages_20: "recent_messages 20 h = drop (length h - 20) h"
  by (simp add: recent_messages_def)

lemma build_nonempty:
  "h \<noteq> [] \<Longrightarrow>
   build_langchain_messages a (Some h) p
     = system_part a @ map to_langchain (recent_messages (keep_messages_count a) h)"
  by (cases h) (simp_all add: build_langchain_messages_def)

text \<open>
  C10. With the default \<open>keep_messages_count\<close> of 20, the request built from a
  non-empty history is the adapter's own system prompt (when one is set) followed by
  the conversions of the last 20 entries of the history, at most 20 of them; and for a
  history longer than 20 the request is the same whatever stands before those last 20
  entries, a system message at position 0 included: the earlier entries are left out.
  The history itself is only read.
\<close>

theorem build_keeps_last_20:
  assumes "keep_messages_count a = 20"
  shows "(h \<noteq> [] \<longrightarrow>
            build_langchain_messages a (Some h) p
              = system_part a @ map to_langchain (drop (length h - 20) h)) \<and>
         length (drop (length h - 20) h) \<le> 20 \<and>
         (20 < length h \<longrightarrow>
            (\<forall>earlier. build_langchain_messages a (Some (earlier @ drop (length h - 20) h)) p
                        = build_langchain_messages a (Some h) p))"
proof -
  have one: "h \<noteq> [] \<longrightarrow> build_langchain_messages a (Some h) p
      = system_part a @ map to_langchain (drop (length h - 20) h)"
    using assms by (simp add: build_nonempty recent_messages_20)
  have two: "length (drop (length h - 20) h) \<le> 20" by simp
  have three: "20 < length h \<longrightarrow>
      (\<forall>earlier. build_langchain_messages a (Some (earlier @ drop (length h - 20) h)) p
                 = build_langchain_messages a (Some h) p)"
  proof (intro impI allI)
    fix earlier :: "message list"
    assume long: "20 < length h"
    let ?last = "drop (length h - 20) h"
    have len: "length ?last = 20" using long by simp
    then have ne: "earlier @ ?last \<noteq> []" by auto
    have "recent_messages 20 (earlier @ ?last) = ?last"
      using len by (simp add: recent_messages_20)
    then have "build_langchain_messages a (Some (earlier @ ?last)) p
        = system_part a @ map to_langchain ?last"
      using assms ne by (simp add: build_nonempty)
    moreover have "h \<noteq> []" using long by auto
    ultimately show "build_langchain_messages a (Some (earlier @ ?last)) p
        = build_langchain_messages a (Some h) p"
      using one by simp
  qed
  from one two three show ?thesis by blast
qed

text \<open>
  A history of 21 entries with the system message first: the request holds the 20 user
  messages and no system message.
\<close>

theorem build_keeps_last_20_witness:
  "build_langchain_messages LLMChatAdapter_init
     (Some (msg ''system'' ''You are an agent'' # replicate 20 (msg ''user'' ''go''))) ''''
   = replicate 20 (HumanMessage ''go'')"
proof -
  let ?h = "msg ''system'' ''You are an agent'' # replicate 20 (msg ''user'' ''go'')"
  have k: "keep_messages_count LLMChatAdapter_init = 20" by (simp add: LLMChatAdapter_init_def)
  have ne: "?h \<noteq> []" by simp
  have d: "drop (length ?h - 20) ?h = replicate 20 (msg ''user'' ''go'')" by simp
  have s: "system_part LLMChatAdapter_init = []"
    by (simp add: system_part_def LLMChatAdapter_init_def)
  have c: "to_langchain (msg ''user'' ''go'') = HumanMessage ''go''"
    by (simp add: to_langchain_def msg_def dict_get_def)
  from build_keeps_last_20 [OF k, of ?h "''''"] ne
  have "build_langchain_messages LLMChatAdapter_init (Some ?h) ''''
      = system_part LLMChatAdapter_init @ map to_langchain (drop (length ?h - 20) ?h)"
    by blast
  then show ?thesis unfolding d s by (simp add: c)
qed


section \<open>File tools (utils.py: safe_path, run_read, run_write, run_edit)\<close>

text \<open>
  A resolved \<open>Path\<close> is the list of its components below the root \<open>/\<close>. What the
  operating system does is a parameter: a record of operations on a world \<open>'w\<close>.
  \<open>resolve\<close> reads the link structure of the world and changes nothing; the other
  operations return the new world, so that a world that comes back unchanged from a
  tool, for every choice of the operations, was not read from and not written to.
  An operation that raises returns the exception.
\<close>

type_synonym path = "string list"

record 'w os =
  resolve :: "'w \<Rightarrow> string \<Rightarrow> exn + path"
  read_text :: "path \<Rightarrow> 'w \<Rightarrow> (exn + string) \<times> 'w"
  mkdir_parents :: "path \<Rightarrow> 'w \<Rightarrow> (exn + unit) \<times> 'w"
  write_text :: "path \<Rightarrow> string \<Rightarrow> 'w \<Rightarrow> (exn + unit) \<times> 'w"

fun exn_str :: "exn \<Rightarrow> string" where
  \<comment> \<open>\<open>str(e)\<close>, for the exceptions that carry their text\<close>
  "exn_str (ValueError m) = m"
| "exn_str (OtherError m) = m"

definition path_str :: "path \<Rightarrow> string" where
  \<comment> \<open>\<open>str(path)\<close> of an absolute path\<close>
  "path_str p = CHR ''/'' # join ''/'' p"

definition joinpath :: "path \<Rightarrow> string \<Rightarrow> string" where
  \<comment> \<open>\<open>WORKDIR / p\<close>, before it is resolved: an absolute \<open>p\<close> replaces \<open>WORKDIR\<close>\<close>
  "joinpath workdir p =
     (if take 1 p = ''/'' then p
      else if workdir = [] then CHR ''/'' # p
      else path_str workdir @ ''/'' @ p)"

definition is_relative_to :: "path \<Rightarrow> path \<Rightarrow> bool" where
  \<comment> \<open>\<open>path.is_relative_to(other)\<close>: \<open>other\<close> is \<open>path\<close> or one of its parents\<close>
  "is_relative_to p other = (take (length other) p = other)"

definition safe_path :: "'w os \<Rightarrow> path \<Rightarrow> 'w \<Rightarrow> string \<Rightarrow> exn + path" where
  "safe_path os workdir w p =
     (case resolve os w (joinpath workdir p) of
        Inl e \<Rightarrow> Inl e
      | Inr fp \<Rightarrow>
          if \<not> is_relative_to fp workdir
          then Inl (ValueError (''Path escapes workspace: '' @ p))
          else Inr fp)"

definition linebreaks :: "string list" where
  \<comment> \<open>the line boundaries of \<open>str.splitlines\<close>, as UTF-8: CR LF, LF, VT, FF, CR, FS, GS,
      RS, U+0085, U+2028, U+2029\<close>
  "linebreaks =
     [[CHR 0x0D, CHR 0x0A], [CHR 0x0A], [CHR 0x0B], [CHR 0x0C], [CHR 0x0D], [CHR 0x1C],
      [CHR 0x1D], [CHR 0x1E], [CHR 0xC2, CHR 0x85], [CHR 0xE2, CHR 0x80, CHR 0xA8],
      [CHR 0xE2, CHR 0x80, CHR 0xA9]]"

function splitlines_from :: "string \<Rightarrow> string \<Rightarrow> string list" where
  \<comment> \<open>the lines of the text after the line \<open>cur\<close> begun so far; CR LF is one boundary\<close>
  "splitlines_from s cur =
     (if s = [] then (if cur = [] then [] else [cur])
      else
        (case find (\<lambda>t. t \<noteq> [] \<and> take (length t) s = t) linebreaks of
           Some t \<Rightarrow> cur # splitlines_from (drop (length t) s) []
         | None \<Rightarrow> splitlines_from (tl s) (cur @ [hd s])))"
  by pat_completeness auto

termination
  by (relation "measure (\<lambda>(s, cur). length s)") (auto simp: find_Some_iff)

declare splitlines_from.simps [simp del]

definition splitlines :: "string \<Rightarrow> string list" where
  "splitlines s = splitlines_from s []"

definition slice_to :: "int \<Rightarrow> 'a list \<Rightarrow> 'a list" where
  \<comment> \<open>\<open>xs[:k]\<close>: a negative \<open>k\<close> counts from the end\<close>
  "slice_to k xs = (if 0 \<le> k then take (nat k) xs else take (length xs - nat (- k)) xs)"

fun replace_first :: "string \<Rightarrow> string \<Rightarrow> string \<Rightarrow> string" where
  \<comment> \<open>\<open>s.replace(old, new, 1)\<close>\<close>
  "replace_first old new [] = (if old = [] then new else [])"
| "replace_first old new (c # cs) =
     (if take (length old) (c # cs) = old then new @ drop (length old) (c # cs)
      else c # replace_first old new cs)"

definition read_at :: "'w os \<Rightarrow> path \<Rightarrow> int option \<Rightarrow> 'w \<Rightarrow> string \<times> 'w" where
  \<comment> \<open>\<open>run_read\<close> after \<open>safe_path\<close> has returned \<open>fp\<close>\<close>
  "read_at os fp limit w =
     (case read_text os fp w of
        (Inl e, w') \<Rightarrow> (''Error: '' @ exn_str e, w')
      | (Inr text, w') \<Rightarrow>
          (let lines = splitlines text;
               lines' = (case limit of
                           None \<Rightarrow> lines
                         | Some l \<Rightarrow>
                             if l \<noteq> 0 \<and> l < int (length lines)
                             then slice_to l lines
                                  @ [''... ('' @ show_nat (nat (int (length lines) - l))
                                     @ '' more lines)'']
                             else lines)
           in (take_chars 50000 (join [LF] lines'), w')))"

definition run_read :: "'w os \<Rightarrow> path \<Rightarrow> string \<Rightarrow> int option \<Rightarrow> 'w \<Rightarrow> string \<times> 'w" where
  "run_read os workdir p limit w =
     (case safe_path os workdir w p of
        Inl e \<Rightarrow> (''Error: '' @ exn_str e, w)
      | Inr fp \<Rightarrow> read_at os fp limit w)"

definition write_at :: "'w os \<Rightarrow> path \<Rightarrow> string \<Rightarrow> string \<Rightarrow> 'w \<Rightarrow> string \<times> 'w" where
  \<comment> \<open>\<open>run_write\<close> after \<open>safe_path\<close> has returned \<open>fp\<close>; \<open>fp.parent\<close> of the root is
      the root\<close>
  "write_at os fp p content w =
     (case mkdir_parents os (butlast fp) w of
        (Inl e, w') \<Rightarrow> (''Error: '' @ exn_str e, w')
      | (Inr u, w') \<Rightarrow>
          (case write_text os fp content w' of
             (Inl e, w'') \<Rightarrow> (''Error: '' @ exn_str e, w'')
           | (Inr u', w'') \<Rightarrow>
               (''Wrote '' @ show_nat (py_len content) @ '' bytes to '' @ p, w'')))"

definition run_write :: "'w os \<Rightarrow> path \<Rightarrow> string \<Rightarrow> string \<Rightarrow> 'w \<Rightarrow> string \<times> 'w" where
  "run_write os workdir p content w =
     (case safe_path os workdir w p of
        Inl e \<Rightarrow> (''Error: '' @ exn_str e, w)
      | Inr fp \<Rightarrow> write_at os fp p content w)"

definition edit_at ::
  "'w os \<Rightarrow> path \<Rightarrow> string \<Rightarrow> string \<Rightarrow> string \<Rightarrow> 'w \<Rightarrow> string \<times> 'w" where
  \<comment> \<open>\<open>run_edit\<close> after \<open>safe_path\<close> has returned \<open>fp\<close>\<close>
  "edit_at os fp p old_text new_text w =
     (case read_text os fp w of
        (Inl e, w') \<Rightarrow> (''Error: '' @ exn_str e, w')
      | (Inr content, w') \<Rightarrow>
          if \<not> contains old_text content then (''Error: Text not found in '' @ p, w')
          else
            (case write_text os fp (replace_first old_text new_text content) w' of
               (Inl e, w'') \<Rightarrow> (''Error: '' @ exn_str e, w'')
             | (Inr u, w'') \<Rightarrow> (''Edited '' @ p, w'')))"

definition run_edit ::
  "'w os \<Rightarrow> path \<Rightarrow> string \<Rightarrow> string \<Rightarrow> string \<Rightarrow> 'w \<Rightarrow> string \<times> 'w" where
  "run_edit os workdir p old_text new_text w =
     (case safe_path os workdir w p of
        Inl e \<Rightarrow> (''Error: '' @ exn_str e, w)
      | Inr fp \<Rightarrow> edit_at os fp p old_text new_text w)"

subsection \<open>A file system without links that records every access\<close>

datatype access = Read path | Mkdir path | Write path

record disk =
  files :: "(path \<times> string) list"
  accesses :: "access list"

fun normpath :: "string list \<Rightarrow> path \<Rightarrow> path" where
  \<comment> \<open>the components of an absolute path with \<open>.\<close> and \<open>..\<close> resolved by name;
      \<open>..\<close> at the root stays at the root\<close>
  "normpath [] acc = acc"
| "normpath (c # cs) acc =
     (if c = [] \<or> c = ''.'' then normpath cs acc
      else if c = ''..'' then normpath cs (butlast acc)
      else normpath cs (acc @ [c]))"

definition disk_os :: "disk os" where
  "disk_os =
     \<lparr>resolve = (\<lambda>w s. Inr (normpath (split_on CHR ''/'' s) [])),
      read_text = (\<lambda>fp w.
        (case map_of (files w) fp of
           None \<Rightarrow> Inl (OtherError (''[Errno 2] No such file or directory: '' @ path_str fp))
         | Some text \<Rightarrow> Inr text,
         w\<lparr>accesses := accesses w @ [Read fp]\<rparr>)),
      mkdir_parents = (\<lambda>fp w. (Inr (), w\<lparr>accesses := accesses w @ [Mkdir fp]\<rparr>)),
      write_text = (\<lambda>fp text w.
        (Inr (), w\<lparr>files := (fp, text) # files w, accesses := accesses w @ [Write fp]\<rparr>))\<rparr>"

definition project_dir :: path where
  "project_dir = [''srv'', ''project'']"

definition disk0 :: disk where
  "disk0 = \<lparr>files = [([''etc'', ''passwd''], ''root:x:0:0'')], accesses = []\<rparr>"

subsection \<open>Paths that leave the workspace\<close>

lemma safe_path_escapes:
  assumes "resolve os w (joinpath workdir p) = Inr fp" and "\<not> is_relative_to fp workdir"
  shows "safe_path os workdir w p = Inl (ValueError (''Path escapes workspace: '' @ p))"
  using assms by (simp add: safe_path_def)

lemma safe_path_inside:
  assumes "resolve os w (joinpath workdir p) = Inr fp" and "is_relative_to fp workdir"
  shows "safe_path os workdir w p = Inr fp"
  using assms by (simp add: safe_path_def)

lemma safe_path_relative:
  "safe_path os workdir w p = Inr fp \<Longrightarrow> is_relative_to fp workdir"
  by (auto simp: safe_path_def split: sum.splits if_splits)

lemma resolve_passwd:
  "resolve disk_os disk0 (joinpath project_dir ''../../etc/passwd'') = Inr [''etc'', ''passwd'']"
  by (simp add: disk_os_def joinpath_def project_dir_def path_str_def)

lemma resolve_notes:
  "resolve disk_os disk0 (joinpath project_dir ''notes/a.txt'')
     = Inr [''srv'', ''project'', ''notes'', ''a.txt'']"
  by (simp add: disk_os_def joinpath_def project_dir_def path_str_def)

text \<open>
  The tools count and cut characters, not bytes, and \<open>splitlines\<close> takes CR LF as
  one line boundary and a form feed as another.
\<close>

lemma write_counts_characters:
  "fst (run_write disk_os project_dir ''a.txt'' [CHR 0xC3, CHR 0xA9, CHR ''!''] disk0)
     = ''Wrote 2 bytes to a.txt''"
  by code_simp

lemma take_chars_example:
  "take_chars 2 [CHR 0xC3, CHR 0xA9, CHR 0xE3, CHR 0x80, CHR 0x80, CHR ''!'']
     = [CHR 0xC3, CHR 0xA9, CHR 0xE3, CHR 0x80, CHR 0x80]"
  by code_simp

lemma splitlines_example:
  "splitlines (''a'' @ [CHR 0x0D, LF] @ ''b'' @ [CHR 0x0C, LF] @ ''c'' @ [LF])
     = [''a'', ''b'', [], ''c'']"
  by code_simp

text \<open>
  C6. Let the path argument \<open>p\<close>, joined to the workspace root, resolve to \<open>fp\<close>.
  When \<open>fp\<close> is not the root or below it, each of \<open>run_read\<close>, \<open>run_write\<close> and
  \<open>run_edit\<close> returns the error text \<open>Error: Path escapes workspace: p\<close> and hands
  the world back as it was, whatever the operations of the operating system are: none
  of them was called, so nothing was read and nothing written. When \<open>fp\<close> is the root
  or below it, \<open>safe_path\<close> returns it and each tool goes on to its file operations at
  \<open>fp\<close>.
\<close>

theorem escaping_path_rejected:
  assumes "resolve os w (joinpath workdir p) = Inr fp"
  shows "(\<not> is_relative_to fp workdir \<longrightarrow>
            run_read os workdir p limit w = (''Error: Path escapes workspace: '' @ p, w) \<and>
            run_write os workdir p content w = (''Error: Path escapes workspace: '' @ p, w) \<and>
            run_edit os workdir p old_text new_text w
              = (''Error: Path escapes workspace: '' @ p, w)) \<and>
         (is_relative_to fp workdir \<longrightarrow>
            safe_path os workdir w p = Inr fp \<and>
            run_read os workdir p limit w = read_at os fp limit w \<and>
            run_write os workdir p content w = write_at os fp p content w \<and>
            run_edit os workdir p old_text new_text w = edit_at os fp p old_text new_text w)"
proof (cases "is_relative_to fp workdir")
  case True
  with assms have "safe_path os workdir w p = Inr fp" by (rule safe_path_inside)
  with True show ?thesis by (simp add: run_read_def run_write_def run_edit_def)
next
  case False
  with assms have "safe_path os workdir w p = Inl (ValueError (''Path escapes workspace: '' @ p))"
    by (rule safe_path_escapes)
  with False show ?thesis by (simp add: run_read_def run_write_def run_edit_def)
qed

text \<open>
  The example of C6 in the workspace \<open>/srv/project\<close>, on a disk that holds
  \<open>/etc/passwd\<close> and records every access: the three tools refuse
  \<open>../../etc/passwd\<close> and the record of accesses stays empty; \<open>notes/a.txt\<close> is
  written.
\<close>

theorem escaping_path_rejected_witness:
  "run_read disk_os project_dir ''../../etc/passwd'' None disk0
     = (''Error: Path escapes workspace: ../../etc/passwd'', disk0)
   \<and> run_write disk_os project_dir ''../../etc/passwd'' ''x'' disk0
     = (''Error: Path escapes workspace: ../../etc/passwd'', disk0)
   \<and> run_edit disk_os project_dir ''../../etc/passwd'' ''root'' ''toor'' disk0
     = (''Error: Path escapes workspace: ../../etc/passwd'', disk0)
   \<and> accesses disk0 = []
   \<and> run_write disk_os project_dir ''notes/a.txt'' ''hi'' disk0
     = (''Wrote 2 bytes to notes/a.txt'',
        \<lparr>files = [([''srv'', ''project'', ''notes'', ''a.txt''], ''hi''),
                  ([''etc'', ''passwd''], ''root:x:0:0'')],
         accesses = [Mkdir [''srv'', ''project'', ''notes''],
                     Write [''srv'', ''project'', ''notes'', ''a.txt'']]\<rparr>)"
proof -
  have out: "\<not> is_relative_to [''etc'', ''passwd''] project_dir"
    by (simp add: is_relative_to_def project_dir_def)
  have inside: "is_relative_to [''srv'', ''project'', ''notes'', ''a.txt''] project_dir"
    by (simp add: is_relative_to_def project_dir_def)
  have "char_of (50 :: nat) = CHR ''2''" by code_simp
  then have "show_nat 2 = ''2''" by (simp add: show_nat.simps digit_char_def)
  then have two: "show_nat (Suc (Suc 0)) = ''2''" by (simp add: numeral_2_eq_2)
  have "py_len ''hi'' = 2" by code_simp
  then have len: "py_len ''hi'' = Suc (Suc 0)" by simp
  have w: "write_at disk_os [''srv'', ''project'', ''notes'', ''a.txt''] ''notes/a.txt'' ''hi'' disk0
     = (''Wrote 2 bytes to notes/a.txt'',
        \<lparr>files = [([''srv'', ''project'', ''notes'', ''a.txt''], ''hi''),
                  ([''etc'', ''passwd''], ''root:x:0:0'')],
         accesses = [Mkdir [''srv'', ''project'', ''notes''],
                     Write [''srv'', ''project'', ''notes'', ''a.txt'']]\<rparr>)"
    by (simp add: write_at_def disk_os_def disk0_def two len)
  from escaping_path_rejected [OF resolve_passwd, of None "''x''" "''root''" "''toor''"] out
  have "run_read disk_os project_dir ''../../etc/passwd'' None disk0
          = (''Error: Path escapes workspace: ../../etc/passwd'', disk0)
      \<and> run_write disk_os project_dir ''../../etc/passwd'' ''x'' disk0
          = (''Error: Path escapes workspace: ../../etc/passwd'', disk0)
      \<and> run_edit disk_os project_dir ''../../etc/passwd'' ''root'' ''toor'' disk0
          = (''Error: Path escapes workspace: ../../etc/passwd'', disk0)"
    by simp
  moreover have "accesses disk0 = []" by (simp add: disk0_def)
  moreover
  from escaping_path_rejected [OF resolve_notes, of None "''hi''" "''''" "''''"] inside
  have "run_write disk_os project_dir ''notes/a.txt'' ''hi'' disk0
          = write_at disk_os [''srv'', ''project'', ''notes'', ''a.txt''] ''notes/a.txt'' ''hi'' disk0"
    by simp
  ultimately show ?thesis using w by simp
qed


section \<open>Agent loop (v1_basic.py and v4_skills.py, agent_loop)\<close>

text \<open>
  What surrounds a loop is a parameter: the model call \<open>client.chat_with_tools\<close>
  (prompt, messages, names of the tools offered), the dispatcher \<open>execute_tool\<close>
  (name and input of a tool_use block), both acting on a world \<open>'w\<close>, Python's
  \<open>repr\<close> of a parsed value, and the texts fixed when the module is loaded. The
  dispatcher may raise; the model call returns a \<open>response\<close>, its own failures being
  caught inside \<open>chat_with_tools\<close>. Writing to the log is not modelled, except where
  building the log line raises.
\<close>

record 'w env =
  chat_with_tools :: "string \<Rightarrow> message list \<Rightarrow> string list \<Rightarrow> 'w \<Rightarrow> response \<times> 'w"
  execute_tool :: "json \<Rightarrow> json \<Rightarrow> 'w \<Rightarrow> (exn + string) \<times> 'w"
  py_repr :: "json \<Rightarrow> string"
  SYSTEM :: string
  WORKDIR :: string
  platform :: string

definition py_str :: "'w env \<Rightarrow> json \<Rightarrow> string" where
  \<comment> \<open>\<open>f"{v}"\<close>\<close>
  "py_str env v = str_of (py_repr env) v"

fun texts :: "block list \<Rightarrow> json list" where
  \<comment> \<open>\<open>assistant_text\<close>: the \<open>text\<close> of the text blocks, in order\<close>
  "texts [] = []"
| "texts (TextBlock t # bs) = t # texts bs"
| "texts (ToolUseBlock i n a # bs) = texts bs"

fun tool_calls :: "block list \<Rightarrow> (json \<times> json) list" where
  \<comment> \<open>\<open>tool_calls\<close>: name and input of the tool_use blocks, in order\<close>
  "tool_calls [] = []"
| "tool_calls (TextBlock t # bs) = tool_calls bs"
| "tool_calls (ToolUseBlock i n a # bs) = (n, a) # tool_calls bs"

fun str_items :: "json list \<Rightarrow> string list option" where
  \<comment> \<open>the items when all of them are strings\<close>
  "str_items [] = Some []"
| "str_items (JStr s # vs) = map_option ((#) s) (str_items vs)"
| "str_items (v # vs) = None"

definition join_texts :: "json list \<Rightarrow> exn + string" where
  \<comment> \<open>\<open>"\n".join(assistant_text)\<close>: a TypeError on an item that is not a string\<close>
  "join_texts ts = (case str_items ts of None \<Rightarrow> Inl TypeError | Some ss \<Rightarrow> Inr (join [LF] ss))"

definition tool_label :: string where
  \<comment> \<open>the bytes of the word for "tool" and a space\<close>
  "tool_label = [CHR 0xE5, CHR 0xB7, CHR 0xA5, CHR 0xE5, CHR 0x85, CHR 0xB7] @ '' ''"

definition input_label :: string where
  \<comment> \<open>comma, the word for "input", colon\<close>
  "input_label = '', '' @ [CHR 0xE8, CHR 0xBE, CHR 0x93, CHR 0xE5, CHR 0x85, CHR 0xA5] @ '': ''"

definition output_label :: string where
  \<comment> \<open>comma, the word for "returns", colon\<close>
  "output_label = '', '' @ [CHR 0xE8, CHR 0xBF, CHR 0x94, CHR 0xE5, CHR 0x9B, CHR 0x9E] @ '': ''"

definition results_head :: string where
  \<comment> \<open>"execution results:" and a line feed\<close>
  "results_head = [CHR 0xE6, CHR 0x89, CHR 0xA7, CHR 0xE8, CHR 0xA1, CHR 0x8C, CHR 0xE7, CHR 0xBB,
     CHR 0x93, CHR 0xE6, CHR 0x9E, CHR 0x9C, CHR 0xEF, CHR 0xBC, CHR 0x9A, CHR 0x0A]"

definition results_tail :: string where
  \<comment> \<open>two line feeds and "please continue"\<close>
  "results_tail = [CHR 0x0A, CHR 0x0A, CHR 0xE8, CHR 0xAF, CHR 0xB7, CHR 0xE7, CHR 0xBB, CHR 0xA7,
     CHR 0xE7, CHR 0xBB, CHR 0xAD, CHR 0xE5, CHR 0xA4, CHR 0x84, CHR 0xE7, CHR 0x90, CHR 0x86]"

definition result_line :: "'w env \<Rightarrow> string \<Rightarrow> json \<Rightarrow> json \<Rightarrow> string \<Rightarrow> string" where
  \<comment> \<open>the entry of \<open>results\<close> for one call; \<open>label\<close> is empty in the agent loops\<close>
  "result_line env label name inp out =
     label @ tool_label @ py_str env name @ input_label @ py_str env inp @ output_label @ out"

fun run_tools ::
  "'w env \<Rightarrow> (json \<Rightarrow> json \<Rightarrow> bool) \<Rightarrow> string \<Rightarrow> (json \<times> json) list \<Rightarrow> 'w
     \<Rightarrow> (exn + string list) \<times> 'w" where
  \<comment> \<open>\<open>for tc in tool_calls\<close>: the list \<open>results\<close>, or the first exception.
      \<open>log_raises\<close> tells when building the log line before the dispatch raises\<close>
  "run_tools env log_raises label [] w = (Inr [], w)"
| "run_tools env log_raises label ((name, inp) # tcs) w =
     (if log_raises name inp then (Inl AttributeError, w)
      else
        (case execute_tool env name inp w of
           (Inl e, w1) \<Rightarrow> (Inl e, w1)
         | (Inr out, w1) \<Rightarrow>
             (case run_tools env log_raises label tcs w1 of
                (Inl e, w2) \<Rightarrow> (Inl e, w2)
              | (Inr results, w2) \<Rightarrow> (Inr (result_line env label name inp out # results), w2))))"

definition results_message :: "string list \<Rightarrow> message" where
  "results_message results = msg ''user'' (results_head @ join [LF] results @ results_tail)"

fun agent_steps ::
  "'w env \<Rightarrow> (json \<Rightarrow> json \<Rightarrow> bool) \<Rightarrow> string list \<Rightarrow> string \<Rightarrow> nat \<Rightarrow> message list \<Rightarrow> 'w
     \<Rightarrow> (exn + message list option) \<times> message list \<times> 'w" where
  \<comment> \<open>\<open>while step < max_steps\<close> with that many steps left. The value is what the call
      returns (\<open>Inr None\<close> when the loop ends without a \<open>return\<close>) or raises, with the
      list \<open>history\<close>, which the loop changes in place, and the world\<close>
  "agent_steps env log_raises tools prompt 0 history w = (Inr None, history, w)"
| "agent_steps env log_raises tools prompt (Suc n) history w =
     (case chat_with_tools env prompt history tools w of
        (response, w1) \<Rightarrow>
          (case join_texts (texts (resp_content response)) of
             Inl e \<Rightarrow> (Inl e, history, w1)
           | Inr full_text \<Rightarrow>
               if tool_calls (resp_content response) = []
               then (Inr (Some (history @ [msg ''assistant'' full_text])),
                     history @ [msg ''assistant'' full_text], w1)
               else
                 (case run_tools env log_raises [] (tool_calls (resp_content response)) w1 of
                    (Inl e, w2) \<Rightarrow> (Inl e, history, w2)
                  | (Inr results, w2) \<Rightarrow>
                      agent_steps env log_raises tools prompt n
                        (history @ [msg ''assistant'' full_text, results_message results]) w2)))"

definition has_system :: "message list \<Rightarrow> bool" where
  "has_system history = list_ex (\<lambda>m. map_of m ''role'' = Some ''system'') history"

definition with_system :: "'w env \<Rightarrow> message list \<Rightarrow> message list" where
  \<comment> \<open>\<open>if not has_system: history.insert(0, ...)\<close>\<close>
  "with_system env history =
     (if has_system history then history else msg ''system'' (SYSTEM env) # history)"

definition BASIC_TOOLS :: "string list" where
  "BASIC_TOOLS = [''bash'', ''read_file'', ''write_file'', ''edit_file'']"

definition BASE_TOOLS :: "string list" where
  "BASE_TOOLS = BASIC_TOOLS @ [''TodoWrite'']"

definition ALL_TOOLS :: "string list" where
  \<comment> \<open>\<open>SUBAGENT_ALL_TOOLS + [SKILL_TOOL]\<close>\<close>
  "ALL_TOOLS = BASE_TOOLS @ [''Task''] @ [''Skill'']"

definition v1_log_raises :: "json \<Rightarrow> json \<Rightarrow> bool" where
  "v1_log_raises name inp = False"

definition v4_log_raises :: "json \<Rightarrow> json \<Rightarrow> bool" where
  \<comment> \<open>\<open>tc.input.get(...)\<close> in the log line of a Task or Skill call: an AttributeError
      when the input is not a dictionary\<close>
  "v4_log_raises name inp =
     ((name = JStr ''Task'' \<or> name = JStr ''Skill'') \<and> (case inp of JObj kvs \<Rightarrow> False | _ \<Rightarrow> True))"

definition agent_loop_v1 ::
  "'w env \<Rightarrow> string \<Rightarrow> message list option \<Rightarrow> int \<Rightarrow> 'w
     \<Rightarrow> (exn + message list option) \<times> message list \<times> 'w" where
  \<comment> \<open>v1_basic.py; \<open>history=None\<close> stands for the empty list\<close>
  "agent_loop_v1 env prompt history max_steps w =
     agent_steps env v1_log_raises BASIC_TOOLS prompt (nat max_steps)
       (with_system env (case history of None \<Rightarrow> [] | Some h \<Rightarrow> h)) w"

definition agent_loop_v4 ::
  "'w env \<Rightarrow> string \<Rightarrow> message list \<Rightarrow> int \<Rightarrow> 'w
     \<Rightarrow> (exn + message list option) \<times> message list \<times> 'w" where
  \<comment> \<open>v4_skills.py\<close>
  "agent_loop_v4 env prompt history max_steps w =
     agent_steps env v4_log_raises ALL_TOOLS prompt (nat max_steps) (with_system env history) w"


subsection \<open>A scripted model and a dispatcher that records its calls\<close>

record stub =
  script :: "response list"
  dispatched :: "(json \<times> json) list"
  model_calls :: nat

definition ls_call :: block where
  "ls_call = ToolUseBlock (JStr ''1'') (JStr ''bash'') (JObj [(''command'', JStr ''ls'')])"


definition scripted_env :: "stub env" where
  \<comment> \<open>the model answers with the next turn of the script, and with the text \<open>done\<close>
      once the script is used up; every tool returns \<open>ok\<close>\<close>
  "scripted_env =
     \<lparr>chat_with_tools = (\<lambda>prompt history tools w.
        (case script w of
           [] \<Rightarrow> (\<lparr>resp_content = [TextBlock (JStr ''done'')], stop_reason = ''end_turn''\<rparr>,
                  w\<lparr>model_calls := Suc (model_calls w)\<rparr>)
         | r # rs \<Rightarrow> (r, w\<lparr>script := rs, model_calls := Suc (model_calls w)\<rparr>))),
      execute_tool = (\<lambda>name inp w. (Inr ''ok'', w\<lparr>dispatched := dispatched w @ [(name, inp)]\<rparr>)),
      py_repr = (\<lambda>v. ''{...}''),
      SYSTEM = ''You are a coding agent.'',
      WORKDIR = ''/srv/project'',
      platform = ''linux''\<rparr>"

definition eager_env :: "nat env" where
  \<comment> \<open>the model asks for \<open>ls\<close> at every turn; the world counts the model calls\<close>
  "eager_env =
     \<lparr>chat_with_tools = (\<lambda>prompt history tools w.
        (\<lparr>resp_content = [ls_call], stop_reason = ''tool_use''\<rparr>, Suc w)),
      execute_tool = (\<lambda>name inp w. (Inr ''ok'', w)),
      py_repr = (\<lambda>v. ''{...}''),
      SYSTEM = ''You are a coding agent.'',
      WORKDIR = ''/srv/project'',
      platform = ''linux''\<rparr>"

definition stub0 :: "response list \<Rightarrow> stub" where
  "stub0 rs = \<lparr>script = rs, dispatched = [], model_calls = 0\<rparr>"



definition number_turn :: response where
  \<comment> \<open>a text block whose text is the number 7, as the normalizer builds it from the
      reply \<open>{"content": 7, "tool_calls": []}\<close>\<close>
  "number_turn = \<lparr>resp_content = [TextBlock (JNum 7)], stop_reason = ''tool_use''\<rparr>"

definition task_turn :: response where
  \<comment> \<open>a Task call whose arguments did not parse and stayed a string\<close>
  "task_turn = \<lparr>resp_content = [ToolUseBlock (JStr ''1'') (JStr ''Task'') (JStr ''explore'')],
                 stop_reason = ''tool_use''\<rparr>"

definition hi :: "message list" where
  "hi = [msg ''user'' ''hi'']"

definition system_hi :: "message list" where
  \<comment> \<open>\<open>hi\<close> once the loop has put the system message in front\<close>
  "system_hi = [msg ''system'' ''You are a coding agent.'', msg ''user'' ''hi'']"

subsection \<open>What decides whether the loop goes on\<close>












lemma normalize_number_content:
  assumes "loads raw = Some (JObj [(''content'', JNum 7), (''tool_calls'', JArr [])])"
  shows "normalize_reply loads True raw = number_turn"
  using assms by (simp add: normalize_reply_def after_loop_def dict_get_def number_turn_def)

lemma normalize_task_call:
  assumes "loads raw = Some (JObj [(''tool_calls'', JArr [JObj [(''id'', JStr ''1''),
      (''function'', JObj [(''name'', JStr ''Task''), (''arguments'', JStr ''explore'')])]])])"
    and "loads ''explore'' = None"
  shows "normalize_reply loads True raw = task_turn"
  using assms
  by (simp add: normalize_reply_def after_loop_def dict_get_def tool_use_of_def
        parse_arguments_def task_turn_def)

subsection \<open>Running out of steps\<close>

text \<open>
  C7 at a failing input. The model asks for \<open>ls\<close> at every turn and the step limit is
  2. Both loops stop after two steps, that is after two model calls, without raising,
  each step having appended its two messages; but the \<open>while\<close> loop is left with no
  \<open>return\<close> after it, and the call returns \<open>None\<close>, not a message: v1 passes the
  step-limit text to the logger only, v4 has no statement after the loop.
\<close>

theorem step_limit_returns_none:
  "agent_loop_v1 eager_env '''' (Some hi) 2 0
     = (Inr None,
        system_hi @
          [msg ''assistant'' '''',
           results_message [result_line eager_env [] (JStr ''bash'') (JObj [(''command'', JStr ''ls'')]) ''ok''],
           msg ''assistant'' '''',
           results_message [result_line eager_env [] (JStr ''bash'') (JObj [(''command'', JStr ''ls'')]) ''ok'']],
        2)
   \<and> agent_loop_v4 eager_env '''' hi 2 0
     = (Inr None,
        system_hi @
          [msg ''assistant'' '''',
           results_message [result_line eager_env [] (JStr ''bash'') (JObj [(''command'', JStr ''ls'')]) ''ok''],
           msg ''assistant'' '''',
           results_message [result_line eager_env [] (JStr ''bash'') (JObj [(''command'', JStr ''ls'')]) ''ok'']],
        2)"
proof -
  have s: "with_system eager_env hi = system_hi"
    by (simp add: with_system_def has_system_def hi_def system_hi_def msg_def eager_env_def)
  have c: "\<And>h ts w. chat_with_tools eager_env '''' h ts w
      = (\<lparr>resp_content = [ls_call], stop_reason = ''tool_use''\<rparr>, Suc w)"
    by (simp add: eager_env_def)
  have e: "\<And>n a w. execute_tool eager_env n a w = (Inr ''ok'', w)"
    by (simp add: eager_env_def)
  show ?thesis
    unfolding agent_loop_v1_def agent_loop_v4_def option.case s
    by (simp add: eval_nat_numeral c e ls_call_def join_texts_def v1_log_raises_def
          v4_log_raises_def)
qed


section \<open>Subagents (v4_skills.py, run_subagent_task; v3_subagent.py, run_task)\<close>

text \<open>
  The registry \<open>AGENT_TYPES\<close> of utils.py. The field \<open>tools\<close> is a list of names or
  the text \<open>*\<close>, here \<open>None\<close>. \<open>run_task\<close> of v3 has the same body as
  \<open>run_subagent_task\<close> of v4; the two modules differ in \<open>execute_tool\<close>, a parameter
  here. What the function writes to the log and to the standard output is not
  modelled, and \<open>description\<close> is used for nothing else.
\<close>

record agent_config =
  cfg_description :: string
  cfg_tools :: "string list option"
  cfg_prompt :: string

definition AGENT_TYPES :: "(string \<times> agent_config) list" where
  "AGENT_TYPES =
     [(''explore'',
       \<lparr>cfg_description = ''Read-only agent for exploring code, finding files, searching'',
        cfg_tools = Some [''bash'', ''read_file''],
        cfg_prompt = ''You are an exploration agent. Search and analyze, but never modify files. Return a concise summary.''\<rparr>),
      (''code'',
       \<lparr>cfg_description = ''Full agent for implementing features and fixing bugs'',
        cfg_tools = None,
        cfg_prompt = ''You are a coding agent. Implement the requested changes efficiently.''\<rparr>),
      (''plan'',
       \<lparr>cfg_description = ''Planning agent for designing implementation strategies'',
        cfg_tools = Some [''bash'', ''read_file''],
        cfg_prompt = ''You are a planning agent. Analyze the codebase and output a numbered implementation plan. Do NOT make changes.''\<rparr>)]"

definition get_tools_for_agent :: "string \<Rightarrow> string list" where
  "get_tools_for_agent agent_type =
     (case map_of AGENT_TYPES agent_type of
        None \<Rightarrow> BASE_TOOLS
      | Some config \<Rightarrow>
          (case cfg_tools config of
             None \<Rightarrow> BASE_TOOLS
           | Some allowed \<Rightarrow> filter (\<lambda>t. t \<in> set allowed) BASE_TOOLS))"

definition you_are_at :: string where
  \<comment> \<open>"you are a ... located at" and a space\<close>
  "you_are_at = [CHR 0xE4, CHR 0xBD, CHR 0xA0, CHR 0xE6, CHR 0x98, CHR 0xAF, CHR 0xE4, CHR 0xB8,
     CHR 0x80, CHR 0xE4, CHR 0xB8, CHR 0xAA, CHR 0xE4, CHR 0xBD, CHR 0x8D, CHR 0xE4, CHR 0xBA,
     CHR 0x8E] @ '' ''"

definition of_kind :: string where
  "of_kind = '' '' @ [CHR 0xE7, CHR 0x9A, CHR 0x84] @ '' ''"

definition subagent_on :: string where
  \<comment> \<open>"subagent, the system is" between spaces\<close>
  "subagent_on = '' '' @ [CHR 0xE5, CHR 0xAD, CHR 0x90, CHR 0xE4, CHR 0xBB, CHR 0xA3, CHR 0xE7,
     CHR 0x90, CHR 0x86, CHR 0xEF, CHR 0xBC, CHR 0x8C, CHR 0xE7, CHR 0xB3, CHR 0xBB, CHR 0xE7,
     CHR 0xBB, CHR 0x9F, CHR 0xE4, CHR 0xB8, CHR 0xBA] @ '' ''"

definition stop_and_break :: string where
  \<comment> \<open>a full stop and two line feeds\<close>
  "stop_and_break = [CHR 0xE3, CHR 0x80, CHR 0x82, CHR 0x0A, CHR 0x0A]"

definition closing_request :: string where
  \<comment> \<open>two line feeds and "finish the task and return a clear, concise summary."\<close>
  "closing_request = [CHR 0x0A, CHR 0x0A, CHR 0xE5, CHR 0xAE, CHR 0x8C, CHR 0xE6, CHR 0x88,
     CHR 0x90, CHR 0xE4, CHR 0xBB, CHR 0xBB, CHR 0xE5, CHR 0x8A, CHR 0xA1, CHR 0xE5, CHR 0xB9,
     CHR 0xB6, CHR 0xE8, CHR 0xBF, CHR 0x94, CHR 0xE5, CHR 0x9B, CHR 0x9E, CHR 0xE6, CHR 0xB8,
     CHR 0x85, CHR 0xE6, CHR 0x99, CHR 0xB0, CHR 0xE3, CHR 0x80, CHR 0x81, CHR 0xE7, CHR 0xAE,
     CHR 0x80, CHR 0xE6, CHR 0xB4, CHR 0x81, CHR 0xE7, CHR 0x9A, CHR 0x84, CHR 0xE6, CHR 0x80,
     CHR 0xBB, CHR 0xE7, CHR 0xBB, CHR 0x93, CHR 0xE3, CHR 0x80, CHR 0x82]"

definition sub_system :: "'w env \<Rightarrow> string \<Rightarrow> agent_config \<Rightarrow> string" where
  "sub_system env agent_type config =
     you_are_at @ WORKDIR env @ of_kind @ agent_type @ subagent_on @ platform env
       @ stop_and_break @ cfg_prompt config @ closing_request"

definition sub_messages :: "'w env \<Rightarrow> string \<Rightarrow> agent_config \<Rightarrow> string \<Rightarrow> message list" where
  \<comment> \<open>the list \<open>sub_messages\<close> as it is built before the loop\<close>
  "sub_messages env agent_type config prompt =
     [msg ''system'' (sub_system env agent_type config), msg ''user'' prompt]"

definition sub_label :: "string \<Rightarrow> string" where
  \<comment> \<open>six spaces, "[subagent]", and the agent type in brackets\<close>
  "sub_label agent_type =
     ''      ['' @ [CHR 0xE5, CHR 0xAD, CHR 0x90, CHR 0xE4, CHR 0xBB, CHR 0xA3, CHR 0xE7, CHR 0x90,
       CHR 0x86] @ '']['' @ agent_type @ ''] ''"

definition sub_results_head :: string where
  \<comment> \<open>"subagent execution results:" and a line feed\<close>
  "sub_results_head = [CHR 0xE5, CHR 0xAD, CHR 0x90, CHR 0xE4, CHR 0xBB, CHR 0xA3, CHR 0xE7,
     CHR 0x90, CHR 0x86] @ results_head"

definition sub_results_message :: "string list \<Rightarrow> message" where
  "sub_results_message results =
     msg ''user'' (sub_results_head @ join [LF] results @ results_tail)"

fun subagent_steps ::
  "'w env \<Rightarrow> string \<Rightarrow> string list \<Rightarrow> nat \<Rightarrow> (response \<times> string) option \<Rightarrow> message list \<Rightarrow> 'w
     \<Rightarrow> (exn + (response \<times> string) option) \<times> message list \<times> 'w" where
  \<comment> \<open>\<open>while step < max_steps\<close> with that many steps left. \<open>prev\<close> holds \<open>response\<close> and
      \<open>full_text\<close> as the step before has left them, \<open>None\<close> before the first step; the
      value is what they are when the loop is left\<close>
  "subagent_steps env agent_type tools 0 prev msgs w = (Inr prev, msgs, w)"
| "subagent_steps env agent_type tools (Suc n) prev msgs w =
     (case chat_with_tools env [] msgs tools w of
        (response, w1) \<Rightarrow>
          (case join_texts (texts (resp_content response)) of
             Inl e \<Rightarrow> (Inl e, msgs, w1)
           | Inr full_text \<Rightarrow>
               if tool_calls (resp_content response) = []
               then (Inr (Some (response, full_text)), msgs, w1)
               else
                 (case run_tools env (\<lambda>name inp. False) (sub_label agent_type)
                         (tool_calls (resp_content response)) w1 of
                    (Inl e, w2) \<Rightarrow> (Inl e, msgs, w2)
                  | (Inr results, w2) \<Rightarrow>
                      subagent_steps env agent_type tools n (Some (response, full_text))
                        (msgs @ [msg ''assistant'' full_text, sub_results_message results]) w2)))"

definition run_subagent_task ::
  "'w env \<Rightarrow> string \<Rightarrow> string \<Rightarrow> string \<Rightarrow> int \<Rightarrow> 'w \<Rightarrow> (exn + string) \<times> 'w" where
  \<comment> \<open>after the loop \<open>response.content\<close> is read: an UnboundLocalError when the loop
      body never ran\<close>
  "run_subagent_task env description prompt agent_type max_steps w =
     (case map_of AGENT_TYPES agent_type of
        None \<Rightarrow> (Inr (''Error: Unknown agent type '' @ [CHR 0x27] @ agent_type @ [CHR 0x27]), w)
      | Some config \<Rightarrow>
          (case subagent_steps env agent_type (get_tools_for_agent agent_type) (nat max_steps)
                  None (sub_messages env agent_type config prompt) w of
             (Inl e, msgs, w') \<Rightarrow> (Inl e, w')
           | (Inr None, msgs, w') \<Rightarrow> (Inl UnboundLocalError, w')
           | (Inr (Some (response, full_text)), msgs, w') \<Rightarrow>
               (Inr (if texts (resp_content response) \<noteq> [] then full_text
                     else ''(subagent returned no text)''), w')))"

subsection \<open>A record of the model calls\<close>

definition traced :: "'w env \<Rightarrow> ('w \<times> (message list \<times> response) list) env" where
  \<comment> \<open>the same surroundings, keeping beside the world a record of every model call:
      the message list the model was shown and the turn it gave\<close>
  "traced env =
     \<lparr>chat_with_tools = (\<lambda>prompt history tools (w, tr).
        (case chat_with_tools env prompt history tools w of
           (response, w') \<Rightarrow> (response, (w', tr @ [(history, response)])))),
      execute_tool = (\<lambda>name inp (w, tr).
        (case execute_tool env name inp w of (out, w') \<Rightarrow> (out, (w', tr)))),
      py_repr = py_repr env,
      SYSTEM = SYSTEM env,
      WORKDIR = WORKDIR env,
      platform = platform env\<rparr>"


definition explore_config :: agent_config where
  "explore_config =
     \<lparr>cfg_description = ''Read-only agent for exploring code, finding files, searching'',
      cfg_tools = Some [''bash'', ''read_file''],
      cfg_prompt = ''You are an exploration agent. Search and analyze, but never modify files. Return a concise summary.''\<rparr>"

definition explore_messages :: "message list" where
  "explore_messages = sub_messages scripted_env ''explore'' explore_config ''Find the auth files''"



subsection \<open>What the subagent is shown and what it returns\<close>

lemma run_tools_chat:
  "run_tools (env\<lparr>chat_with_tools := c\<rparr>) g label tcs w = run_tools env g label tcs w"
proof (induction tcs arbitrary: w)
  case Nil
  show ?case by simp
next
  case (Cons tc tcs)
  obtain name inp where tc: "tc = (name, inp)" by (cases tc)
  have "py_str (env\<lparr>chat_with_tools := c\<rparr>) = py_str env"
    by (intro ext) (simp add: py_str_def)
  then have r: "result_line (env\<lparr>chat_with_tools := c\<rparr>) = result_line env"
    by (intro ext) (simp add: result_line_def)
  show ?case unfolding tc by (simp add: r Cons.IH split: prod.splits sum.splits)
qed

lemma take_2_append:
  assumes "take 2 msgs = init" and "length init = 2"
  shows "take 2 (msgs @ extra) = init"
proof -
  from assms have "length (take 2 msgs) = 2" by simp
  then have "2 \<le> length msgs" by simp
  with assms(1) show ?thesis by simp
qed

lemma subagent_steps_chat:
  assumes "\<forall>h ts w. take 2 h = init \<longrightarrow> c [] h ts w = chat_with_tools env [] h ts w"
    and "length init = 2"
  shows "take 2 msgs = init \<Longrightarrow>
         subagent_steps (env\<lparr>chat_with_tools := c\<rparr>) agent_type tools n prev msgs w
           = subagent_steps env agent_type tools n prev msgs w"
proof (induction n arbitrary: prev msgs w)
  case 0
  show ?case by simp
next
  case (Suc n)
  obtain r w1 where r: "chat_with_tools env [] msgs tools w = (r, w1)"
    by (cases "chat_with_tools env [] msgs tools w")
  from assms(1) Suc.prems have "c [] msgs tools w = chat_with_tools env [] msgs tools w"
    by blast
  with r have c: "chat_with_tools (env\<lparr>chat_with_tools := c\<rparr>) [] msgs tools w = (r, w1)"
    by simp
  have next_step: "subagent_steps (env\<lparr>chat_with_tools := c\<rparr>) agent_type tools n prev' (msgs @ extra) w'
      = subagent_steps env agent_type tools n prev' (msgs @ extra) w'" for prev' extra w'
    by (rule Suc.IH) (rule take_2_append [OF Suc.prems assms(2)])
  show ?case
    unfolding subagent_steps.simps c r
    by (simp add: run_tools_chat next_step split: prod.splits sum.splits)
qed

text \<open>
  The run depends on the model only through its answers on the message lists that
  begin with the two entries of \<open>sub_messages\<close>: a model that answers differently on
  every other message list gives the same run.
\<close>

lemma run_subagent_task_chat:
  assumes "map_of AGENT_TYPES agent_type = Some config"
    and "\<forall>h ts w. take 2 h = sub_messages env agent_type config prompt \<longrightarrow>
           c [] h ts w = chat_with_tools env [] h ts w"
  shows "run_subagent_task (env\<lparr>chat_with_tools := c\<rparr>) description prompt agent_type max_steps w
     = run_subagent_task env description prompt agent_type max_steps w"
proof -
  have s: "sub_messages (env\<lparr>chat_with_tools := c\<rparr>) agent_type config prompt
      = sub_messages env agent_type config prompt"
    by (simp add: sub_messages_def sub_system_def)
  have l: "length (sub_messages env agent_type config prompt) = 2"
    by (simp add: sub_messages_def)
  have "subagent_steps (env\<lparr>chat_with_tools := c\<rparr>) agent_type (get_tools_for_agent agent_type)
      (nat max_steps) None (sub_messages env agent_type config prompt) w
    = subagent_steps env agent_type (get_tools_for_agent agent_type)
      (nat max_steps) None (sub_messages env agent_type config prompt) w"
    using assms(2) l by (rule subagent_steps_chat) (simp add: sub_messages_def)
  then show ?thesis using assms(1) by (simp add: run_subagent_task_def s)
qed



lemma chat_traced:
  assumes "chat_with_tools env prompt history tools w = (response, w')"
  shows "chat_with_tools (traced env) prompt history tools (w, tr)
     = (response, (w', tr @ [(history, response)]))"
  using assms by (simp add: traced_def)







text \<open>
  A turn whose text is not a string makes the call raise, as it makes the agent loop
  raise; the record holds the one model call.
\<close>

lemma subagent_raises:
  "run_subagent_task (traced scripted_env) ''look'' ''Find the auth files'' ''explore'' 3
       (stub0 [number_turn], [])
     = (Inl TypeError,
        (\<lparr>script = [], dispatched = [], model_calls = 1\<rparr>, [(explore_messages, number_turn)]))"
proof -
  have some: "map_of AGENT_TYPES ''explore'' = Some explore_config"
    by (simp add: AGENT_TYPES_def explore_config_def)
  have s: "sub_messages (traced scripted_env) ''explore'' explore_config ''Find the auth files''
      = explore_messages"
    by (simp add: explore_messages_def sub_messages_def sub_system_def traced_def)
  have c: "\<And>h ts. chat_with_tools scripted_env [] h ts (stub0 [number_turn])
      = (number_turn, \<lparr>script = [], dispatched = [], model_calls = 1\<rparr>)"
    by (simp add: scripted_env_def stub0_def)
  have c': "\<And>h ts tr. chat_with_tools (traced scripted_env) [] h ts (stub0 [number_turn], tr)
      = (number_turn, (\<lparr>script = [], dispatched = [], model_calls = 1\<rparr>, tr @ [(h, number_turn)]))"
    by (rule chat_traced) (rule c)
  have j: "join_texts (texts (resp_content number_turn)) = Inl TypeError"
    by (simp add: number_turn_def join_texts_def)
  have n3: "nat 3 = Suc (Suc (Suc 0))" by simp
  show ?thesis
    unfolding run_subagent_task_def some option.case n3 s
    by (simp add: c' j)
qed


section \<open>Skills (v4_skills.py, class SkillLoader and run_skill)\<close>

subsection \<open>The pattern of \<open>parse_skill_md\<close>\<close>

text \<open>
  \<open>re.match\<close> tries the alternatives of a pattern in a fixed order and returns the
  first match. Each piece of the pattern below gives the list of the ways it can
  match at the start of the input, in the order in which \<open>re\<close> tries them; the
  matches of the whole pattern are the combinations, in that order. The white space of
  \<open>\s\<close> is that of \<open>str.isspace\<close>. A dot matches any character; here it is let match
  any byte, which gives the same matches, since what follows a dot in the pattern is a
  line feed or the end of the text and neither is found inside a character.
\<close>

definition lit :: "string \<Rightarrow> string \<Rightarrow> string list" where
  \<comment> \<open>a literal text: the rest of the input after it\<close>
  "lit s inp = (if take (length s) inp = s then [drop (length s) inp] else [])"

function space_rests :: "string \<Rightarrow> string list" where
  \<comment> \<open>the text after none, one, two, ... of the characters of white space it begins
      with\<close>
  "space_rests s =
     s # (case find (\<lambda>t. t \<noteq> [] \<and> take (length t) s = t) spaces of
            None \<Rightarrow> []
          | Some t \<Rightarrow> space_rests (drop (length t) s))"
  by pat_completeness auto

termination
proof (relation "measure length")
  show "wf (measure length)" by simp
next
  fix s t :: string
  assume "find (\<lambda>t. t \<noteq> [] \<and> take (length t) s = t) spaces = Some t"
  then have "t \<noteq> []" and "take (length t) s = t" by (auto simp: find_Some_iff)
  then have "0 < length t" and "s \<noteq> []" by auto
  then show "(drop (length t) s, s) \<in> measure length" by simp
qed

declare space_rests.simps [simp del]

definition space_star :: "string \<Rightarrow> string list" where
  \<comment> \<open>\<open>\s*\<close>, greedy: the longest run of white space first\<close>
  "space_star inp = rev (space_rests inp)"

definition any_lazy :: "string \<Rightarrow> (string \<times> string) list" where
  \<comment> \<open>\<open>(.*?)\<close> with DOTALL: the shortest text first, with the rest\<close>
  "any_lazy inp = map (\<lambda>k. (take k inp, drop k inp)) [0 ..< Suc (length inp)]"

definition any_greedy :: "string \<Rightarrow> (string \<times> string) list" where
  \<comment> \<open>\<open>(.*)\<close> with DOTALL: the longest text first, with the rest\<close>
  "any_greedy inp = map (\<lambda>k. (take k inp, drop k inp)) (rev [0 ..< Suc (length inp)])"

definition at_end :: "string \<Rightarrow> bool" where
  \<comment> \<open>\<open>$\<close>: the end of the text, or just before a line feed that ends the text\<close>
  "at_end inp = (inp = [] \<or> inp = [LF])"

definition frontmatter_matches :: "string \<Rightarrow> (string \<times> string) list" where
  \<comment> \<open>the pattern \<open>^---\s*\n(.*?)\n---\s*\n(.*)$\<close> with DOTALL: the two groups of every
      match\<close>
  "frontmatter_matches content =
     [(frontmatter, body).
        r0 \<leftarrow> lit ''---'' content, r1 \<leftarrow> space_star r0, r2 \<leftarrow> lit [LF] r1,
        (frontmatter, r3) \<leftarrow> any_lazy r2, r4 \<leftarrow> lit (LF # ''---'') r3,
        r5 \<leftarrow> space_star r4, r6 \<leftarrow> lit [LF] r5,
        (body, r7) \<leftarrow> any_greedy r6, at_end r7]"

definition match_frontmatter :: "string \<Rightarrow> (string \<times> string) option" where
  \<comment> \<open>\<open>re.match(...)\<close> and \<open>match.groups()\<close>\<close>
  "match_frontmatter content =
     (case frontmatter_matches content of [] \<Rightarrow> None | m # ms \<Rightarrow> Some m)"

subsection \<open>The loader\<close>

fun split_first :: "char \<Rightarrow> string \<Rightarrow> (string \<times> string) option" where
  \<comment> \<open>\<open>line.split(c, 1)\<close> when \<open>c in line\<close>, and \<open>None\<close> when not\<close>
  "split_first c [] = None"
| "split_first c (x # xs) =
     (if x = c then Some ([], xs)
      else map_option (\<lambda>(a, b). (x # a, b)) (split_first c xs))"

definition strip_chars :: "string \<Rightarrow> string \<Rightarrow> string" where
  \<comment> \<open>\<open>s.strip(chars)\<close>\<close>
  "strip_chars chars s =
     rev (dropWhile (\<lambda>c. c \<in> set chars) (rev (dropWhile (\<lambda>c. c \<in> set chars) s)))"

fun dict_set :: "'k \<Rightarrow> 'v \<Rightarrow> ('k \<times> 'v) list \<Rightarrow> ('k \<times> 'v) list" where
  \<comment> \<open>\<open>d[k] = v\<close>: a key that is there keeps its place\<close>
  "dict_set k v [] = [(k, v)]"
| "dict_set k v ((k', v') # kvs) =
     (if k' = k then (k, v) # kvs else (k', v') # dict_set k v kvs)"

definition parse_frontmatter :: "string \<Rightarrow> (string \<times> string) list" where
  \<comment> \<open>the loop \<open>for line in frontmatter.strip().split("\n")\<close>\<close>
  "parse_frontmatter frontmatter =
     foldl (\<lambda>metadata line.
              case split_first CHR '':'' line of
                None \<Rightarrow> metadata
              | Some (key, v) \<Rightarrow>
                  dict_set (strip key) (strip_chars [CHR 0x22, CHR 0x27] (strip v)) metadata)
       [] (split_on LF (strip frontmatter))"













subsection \<open>The package \<open>pdf\<close>\<close>

definition pdf_manifest :: string where
  "pdf_manifest =
     ''---'' @ [LF] @ ''name: pdf'' @ [LF] @ ''description: handle pdfs'' @ [LF] @ ''---'' @ [LF]
       @ ''Use pdftotext.''"









lemma match_pdf_manifest:
  "match_frontmatter pdf_manifest
     = Some (''name: pdf'' @ [LF] @ ''description: handle pdfs'', ''Use pdftotext.'')"
  by code_simp

text \<open>
  The front matter is the shortest one: the first line \<open>---\<close> after the opening
  closes it, and a later \<open>---\<close> belongs to the body.
\<close>

lemma match_frontmatter_shortest:
  "match_frontmatter
     (''---'' @ [LF] @ ''name: pdf'' @ [LF] @ ''---'' @ [LF] @ ''a'' @ [LF] @ ''---'' @ [LF] @ ''b'')
   = Some (''name: pdf'', ''a'' @ [LF] @ ''---'' @ [LF] @ ''b'')"
  by code_simp

lemma parse_pdf_frontmatter:
  "parse_frontmatter (''name: pdf'' @ [LF] @ ''description: handle pdfs'')
     = [(''name'', ''pdf''), (''description'', ''handle pdfs'')]"
  by code_simp







end
